theory Spec2Isabelle
  imports Main "HOL-Library.Multiset"
begin

section \<open>Schema (db/schema.ts)\<close>

text \<open>
  Timestamps are milliseconds since the epoch. A JavaScript \<open>Date\<close> object is either a
  valid time value or the Invalid Date (time value NaN).
\<close>

type_synonym timestamp = int

datatype jsdate = Date timestamp | InvalidDate

text \<open>A field that may be absent (\<open>undefined\<close>), \<open>null\<close>, or hold a value.\<close>

datatype 'a optnull = Absent | Null | Val 'a

text \<open>
  One record per table, the fields in the order of \<open>pgTable\<close>. A nullable column is an
  \<open>option\<close> (\<open>None\<close> is SQL NULL). \<open>numeric(10,2)\<close> is held in hundredths.
\<close>

record exercise =
  e_id :: int
  e_name :: string
  e_createdAt :: timestamp
  e_updatedAt :: timestamp

record workout =
  w_id :: int
  w_userId :: string
  w_name :: "string option"
  w_startedAt :: timestamp
  w_completedAt :: "timestamp option"
  w_createdAt :: timestamp
  w_updatedAt :: timestamp

record workoutExercise =
  we_id :: int
  we_workoutId :: int
  we_exerciseId :: int
  we_order :: int
  we_createdAt :: timestamp

record setRow =
  s_id :: int
  s_workoutExerciseId :: int
  s_setNumber :: int
  s_weight :: int
  s_reps :: int
  s_createdAt :: timestamp

text \<open>
  The database: the four tables, each a list of rows in storage order, and the sequence
  behind the \<open>serial\<close> primary key of \<open>workouts\<close>.
\<close>

record db =
  exercises :: "exercise list"
  workouts :: "workout list"
  workoutExercises :: "workoutExercise list"
  sets :: "setRow list"
  workouts_id_seq :: int

section \<open>Faults and the request environment\<close>

text \<open>
  What storage and the data helpers throw: an \<open>Error\<close> with its message, or a value
  that is not an \<open>Error\<close> instance.
\<close>

datatype thrown = JsError string | NonError

text \<open>
  What a request sees of the outside: \<open>auth\<close> is the \<open>userId\<close> of Clerk's \<open>auth()\<close>,
  \<open>clock\<close> is \<open>new Date()\<close> on the server, \<open>dbNow\<close> is the database's \<open>now()\<close>,
  \<open>fault k\<close> is the fault (if any) of the \<open>k\<close>-th storage round trip of the request
  (a lost connection, a violated constraint, a value too long for its column),
  \<open>dateParse\<close> is \<open>Date.parse\<close> (\<open>None\<close> for NaN), and \<open>localTZA\<close> is the server's time
  zone: \<open>localTZA t True\<close> is the offset of local time from UTC, in milliseconds, in
  effect at the instant \<open>t\<close>, and \<open>localTZA t False\<close> is the offset by which the local
  time value \<open>t\<close> is read (across a daylight-saving change the two differ).
\<close>

record env =
  auth :: "string option"
  clock :: timestamp
  dbNow :: timestamp
  fault :: "nat \<Rightarrow> thrown option"
  dateParse :: "string \<Rightarrow> timestamp option"
  localTZA :: "timestamp \<Rightarrow> bool \<Rightarrow> int"

section \<open>Storage operations (Drizzle on PostgreSQL)\<close>

text \<open>Array destructuring \<open>const [x] = rows\<close>: the first row, or \<open>undefined\<close>.\<close>

fun first :: "'a list \<Rightarrow> 'a option" where
  "first [] = None"
| "first (x # xs) = Some x"

text \<open>
  A timestamp column serialises a \<open>Date\<close> parameter with \<open>toISOString\<close>, which raises a
  \<open>RangeError\<close> on the Invalid Date.
\<close>

fun toDriver :: "jsdate \<Rightarrow> thrown + timestamp" where
  "toDriver (Date t) = Inr t"
| "toDriver InvalidDate = Inl (JsError ''Invalid time value'')"

text \<open>The values of an insert into \<open>workouts\<close> (\<open>CreateWorkoutData\<close>).\<close>

record createWorkoutData =
  cwd_userId :: string
  cwd_name :: "string option"
  cwd_startedAt :: jsdate

text \<open>
  \<open>insert(workouts).values(data).returning()\<close>: \<open>id\<close> comes from the sequence,
  \<open>completedAt\<close> has no default and is NULL, \<open>createdAt\<close> and \<open>updatedAt\<close> both default
  to \<open>now()\<close> of the one statement.
\<close>

definition insert_workouts ::
  "env \<Rightarrow> nat \<Rightarrow> createWorkoutData \<Rightarrow> db \<Rightarrow> thrown + (workout list \<times> db)" where
  "insert_workouts ev k data d =
     (case toDriver (cwd_startedAt data) of
        Inl e \<Rightarrow> Inl e
      | Inr t \<Rightarrow>
          (case fault ev k of
             Some e \<Rightarrow> Inl e
           | None \<Rightarrow>
               (let w = \<lparr> w_id = workouts_id_seq d, w_userId = cwd_userId data,
                          w_name = cwd_name data, w_startedAt = t, w_completedAt = None,
                          w_createdAt = dbNow ev, w_updatedAt = dbNow ev \<rparr>
                in Inr ([w], d\<lparr> workouts := workouts d @ [w],
                                workouts_id_seq := workouts_id_seq d + 1 \<rparr>))))"

text \<open>
  The object given to \<open>.set(...)\<close>: a key that is absent or \<open>undefined\<close> leaves its
  column alone.
\<close>

record workoutSet =
  set_name :: "string option"
  set_startedAt :: "timestamp option"
  set_completedAt :: "timestamp optnull"
  set_updatedAt :: "timestamp option"

definition applySet :: "workoutSet \<Rightarrow> workout \<Rightarrow> workout" where
  "applySet s w =
     w\<lparr> w_name := (case set_name s of None \<Rightarrow> w_name w | Some n \<Rightarrow> Some n),
        w_startedAt := (case set_startedAt s of None \<Rightarrow> w_startedAt w | Some t \<Rightarrow> t),
        w_completedAt := (case set_completedAt s of
                            Absent \<Rightarrow> w_completedAt w | Null \<Rightarrow> None | Val t \<Rightarrow> Some t),
        w_updatedAt := (case set_updatedAt s of None \<Rightarrow> w_updatedAt w | Some t \<Rightarrow> t) \<rparr>"

text \<open>\<open>update(workouts).set(s).where(p).returning()\<close>.\<close>

definition update_workouts ::
  "env \<Rightarrow> nat \<Rightarrow> workoutSet \<Rightarrow> (workout \<Rightarrow> bool) \<Rightarrow> db \<Rightarrow> thrown + (workout list \<times> db)" where
  "update_workouts ev k s p d =
     (case fault ev k of
        Some e \<Rightarrow> Inl e
      | None \<Rightarrow>
          Inr (map (applySet s) (filter p (workouts d)),
               d\<lparr> workouts := map (\<lambda>w. if p w then applySet s w else w) (workouts d) \<rparr>))"

text \<open>
  \<open>delete(workouts).where(p).returning()\<close>. The foreign keys
  \<open>workout_exercises.workout_id\<close> and \<open>sets.workout_exercise_id\<close> are declared
  \<open>onDelete: 'cascade'\<close>, so the engine removes the dependent rows with their parents.
\<close>

definition delete_workouts ::
  "env \<Rightarrow> nat \<Rightarrow> (workout \<Rightarrow> bool) \<Rightarrow> db \<Rightarrow> thrown + (workout list \<times> db)" where
  "delete_workouts ev k p d =
     (case fault ev k of
        Some e \<Rightarrow> Inl e
      | None \<Rightarrow>
          (let gone = filter p (workouts d);
               goneIds = map w_id gone;
               goneWEs = filter (\<lambda>x. we_workoutId x \<in> set goneIds) (workoutExercises d);
               goneWEIds = map we_id goneWEs
           in Inr (gone,
                   d\<lparr> workouts := filter (\<lambda>w. \<not> p w) (workouts d),
                      workoutExercises :=
                        filter (\<lambda>x. we_workoutId x \<notin> set goneIds) (workoutExercises d),
                      sets :=
                        filter (\<lambda>x. s_workoutExerciseId x \<notin> set goneWEIds) (sets d) \<rparr>)))"

text \<open>\<open>select().from(workouts).where(p)\<close>, rows in storage order.\<close>

definition select_workouts ::
  "env \<Rightarrow> nat \<Rightarrow> (workout \<Rightarrow> bool) \<Rightarrow> db \<Rightarrow> thrown + workout list" where
  "select_workouts ev k p d =
     (case fault ev k of Some e \<Rightarrow> Inl e | None \<Rightarrow> Inr (filter p (workouts d)))"

text \<open>\<open>orderBy(desc(workouts.startedAt))\<close>: a stable sort, latest first.\<close>

definition orderBy_desc :: "('a \<Rightarrow> int) \<Rightarrow> 'a list \<Rightarrow> 'a list" where
  "orderBy_desc f xs = sort_key (\<lambda>x. - f x) xs"

definition orderBy_asc :: "('a \<Rightarrow> int) \<Rightarrow> 'a list \<Rightarrow> 'a list" where
  "orderBy_asc f xs = sort_key f xs"

section \<open>Data helpers with an explicit owner (src/data/workouts.ts)\<close>

record updateWorkoutData =
  uwd_name :: "string option"
  uwd_completedAt :: "jsdate option"

definition createWorkout ::
  "env \<Rightarrow> createWorkoutData \<Rightarrow> db \<Rightarrow> thrown + (workout option \<times> db)" where
  "createWorkout ev data d =
     (case insert_workouts ev 0 data d of
        Inl e \<Rightarrow> Inl e
      | Inr (rows, d') \<Rightarrow> Inr (first rows, d'))"

text \<open>\<open>.set({ ...data, updatedAt: new Date() })\<close>.\<close>

definition updateWorkout ::
  "env \<Rightarrow> int \<Rightarrow> string \<Rightarrow> updateWorkoutData \<Rightarrow> db \<Rightarrow> thrown + (workout option \<times> db)" where
  "updateWorkout ev i userId data d =
     (case (case uwd_completedAt data of
              None \<Rightarrow> Inr Absent
            | Some c \<Rightarrow> (case toDriver c of Inl e \<Rightarrow> Inl e | Inr t \<Rightarrow> Inr (Val t))) of
        Inl e \<Rightarrow> Inl e
      | Inr c \<Rightarrow>
          (case update_workouts ev 0
                  \<lparr> set_name = uwd_name data, set_startedAt = None,
                    set_completedAt = c, set_updatedAt = Some (clock ev) \<rparr>
                  (\<lambda>w. w_id w = i \<and> w_userId w = userId) d of
             Inl e \<Rightarrow> Inl e
           | Inr (rows, d') \<Rightarrow> Inr (first rows, d')))"

definition deleteWorkout ::
  "env \<Rightarrow> int \<Rightarrow> string \<Rightarrow> db \<Rightarrow> thrown + (workout option \<times> db)" where
  "deleteWorkout ev i userId d =
     (case delete_workouts ev 0 (\<lambda>w. w_id w = i \<and> w_userId w = userId) d of
        Inl e \<Rightarrow> Inl e
      | Inr (rows, d') \<Rightarrow> Inr (first rows, d'))"

definition getUserWorkouts :: "env \<Rightarrow> string \<Rightarrow> db \<Rightarrow> thrown + workout list" where
  "getUserWorkouts ev userId d =
     (case select_workouts ev 0 (\<lambda>w. w_userId w = userId) d of
        Inl e \<Rightarrow> Inl e
      | Inr rows \<Rightarrow> Inr (orderBy_desc w_startedAt rows))"

text \<open>\<open>.where(and(eq(id), eq(userId))).limit(1)\<close>, then the first row.\<close>

definition getWorkout :: "env \<Rightarrow> int \<Rightarrow> string \<Rightarrow> db \<Rightarrow> thrown + workout option" where
  "getWorkout ev i userId d =
     (case select_workouts ev 0 (\<lambda>w. w_id w = i \<and> w_userId w = userId) d of
        Inl e \<Rightarrow> Inl e
      | Inr rows \<Rightarrow> Inr (first (take 1 rows)))"

section \<open>Integrity of a database state\<close>

text \<open>
  \<open>id\<close> is the primary key of \<open>workouts\<close>, and the sequence is ahead of every id it
  has handed out.
\<close>

definition pk_workouts :: "db \<Rightarrow> bool" where
  "pk_workouts d = distinct (map w_id (workouts d))"

definition seq_ahead :: "db \<Rightarrow> bool" where
  "seq_ahead d = list_all (\<lambda>w. w_id w < workouts_id_seq d) (workouts d)"

section \<open>Data helpers that resolve the caller (data/workouts.ts)\<close>

text \<open>
  \<open>TimeClip\<close>: a time value beyond 8.64e15 milliseconds from the epoch is no date.
\<close>

definition msPerDay :: int where
  "msPerDay = 86400000"

definition timeClip :: "int \<Rightarrow> jsdate" where
  "timeClip t = (if \<bar>t\<bar> \<le> 8640000000000000 then Date t else InvalidDate)"

text \<open>
  \<open>setHours(h, m, s, ms)\<close> on a copy of the date: the time value is taken to local time
  with the offset in effect at that instant, the day of the local time is kept and its
  time within the day replaced, and the new local time is taken back with the offset
  by which that local time is read. The Invalid Date stays invalid.
\<close>

definition setHours ::
  "(timestamp \<Rightarrow> bool \<Rightarrow> int) \<Rightarrow> jsdate \<Rightarrow> int \<Rightarrow> int \<Rightarrow> int \<Rightarrow> int \<Rightarrow> jsdate" where
  "setHours tza date h m s ms =
     (case date of
        InvalidDate \<Rightarrow> InvalidDate
      | Date t \<Rightarrow>
          (let local = t + tza t True;
               day = local div msPerDay;
               newLocal = day * msPerDay + (h * 3600000 + m * 60000 + s * 1000 + ms)
           in timeClip (newLocal - tza newLocal False)))"

text \<open>
  The result of a relational query: a workout with its \<open>workoutExercises\<close>, each with
  its \<open>exercise\<close> and its \<open>sets\<close>.
\<close>

record workoutExerciseWith =
  wx_row :: workoutExercise
  wx_exercise :: "exercise option"
  wx_sets :: "setRow list"

record workoutWith =
  ww_row :: workout
  ww_workoutExercises :: "workoutExerciseWith list"

text \<open>\<open>sets: { orderBy: [asc(sets.setNumber)] }\<close>.\<close>

definition with_sets :: "db \<Rightarrow> workoutExercise \<Rightarrow> setRow list" where
  "with_sets d x =
     orderBy_asc s_setNumber (filter (\<lambda>s. s_workoutExerciseId s = we_id x) (sets d))"

text \<open>
  \<open>workoutExercises: { orderBy: [asc(workoutExercises.order)],
  with: { exercise: true, sets: ... } }\<close>.
\<close>

definition with_workoutExercises :: "db \<Rightarrow> workout \<Rightarrow> workoutExerciseWith list" where
  "with_workoutExercises d w =
     map (\<lambda>x. \<lparr> wx_row = x,
                wx_exercise = find (\<lambda>e. e_id e = we_exerciseId x) (exercises d),
                wx_sets = with_sets d x \<rparr>)
         (orderBy_asc we_order (filter (\<lambda>x. we_workoutId x = w_id w) (workoutExercises d)))"

text \<open>\<open>db.query.workouts.findMany({ where, with, orderBy })\<close>, one round trip.\<close>

definition findMany_workouts ::
  "env \<Rightarrow> nat \<Rightarrow> (workout \<Rightarrow> bool) \<Rightarrow> (workout list \<Rightarrow> workout list) \<Rightarrow> db
     \<Rightarrow> thrown + workoutWith list" where
  "findMany_workouts ev k p ord d =
     (case fault ev k of
        Some e \<Rightarrow> Inl e
      | None \<Rightarrow>
          Inr (map (\<lambda>w. \<lparr> ww_row = w, ww_workoutExercises = with_workoutExercises d w \<rparr>)
                   (ord (filter p (workouts d)))))"

text \<open>\<open>db.query.workouts.findFirst({ where })\<close> with no relations.\<close>

definition findFirst_workouts ::
  "env \<Rightarrow> nat \<Rightarrow> (workout \<Rightarrow> bool) \<Rightarrow> db \<Rightarrow> thrown + workout option" where
  "findFirst_workouts ev k p d =
     (case fault ev k of Some e \<Rightarrow> Inl e | None \<Rightarrow> Inr (first (filter p (workouts d))))"

text \<open>
  \<open>if (!userId) throw new Error("Unauthorized")\<close>: \<open>!userId\<close> holds for \<open>null\<close> and for the
  empty string.
\<close>

definition getUserWorkoutsByDate :: "env \<Rightarrow> jsdate \<Rightarrow> db \<Rightarrow> thrown + workoutWith list" where
  "getUserWorkoutsByDate ev date d =
     (case auth ev of
        None \<Rightarrow> Inl (JsError ''Unauthorized'')
      | Some userId \<Rightarrow>
          if userId = [] then Inl (JsError ''Unauthorized'')
          else
            (let startOfDay = setHours (localTZA ev) date 0 0 0 0;
                 endOfDay = setHours (localTZA ev) date 23 59 59 999
             in case toDriver startOfDay of
                  Inl e \<Rightarrow> Inl e
                | Inr lo \<Rightarrow>
                    (case toDriver endOfDay of
                       Inl e \<Rightarrow> Inl e
                     | Inr hi \<Rightarrow>
                         findMany_workouts ev 0
                           (\<lambda>w. w_userId w = userId \<and> lo \<le> w_startedAt w \<and> w_startedAt w < hi)
                           (orderBy_desc w_startedAt) d)))"

definition getUserWorkouts_auth :: "env \<Rightarrow> db \<Rightarrow> thrown + workoutWith list" where
  "getUserWorkouts_auth ev d =
     (case auth ev of
        None \<Rightarrow> Inl (JsError ''Unauthorized'')
      | Some userId \<Rightarrow>
          if userId = [] then Inl (JsError ''Unauthorized'')
          else findMany_workouts ev 0 (\<lambda>w. w_userId w = userId) (orderBy_desc w_startedAt) d)"

text \<open>The \<open>data\<close> parameter of \<open>updateWorkout(workoutId, data)\<close>.\<close>

record updateData =
  ud_name :: "string option"
  ud_startedAt :: "jsdate option"
  ud_completedAt :: "jsdate optnull"

text \<open>The timestamp parameters of \<open>.set({ ...data, updatedAt: new Date() })\<close>, serialised.\<close>

definition updateData_set :: "env \<Rightarrow> updateData \<Rightarrow> thrown + workoutSet" where
  "updateData_set ev data =
     (case (case ud_startedAt data of
              None \<Rightarrow> Inr None
            | Some s \<Rightarrow> (case toDriver s of Inl e \<Rightarrow> Inl e | Inr t \<Rightarrow> Inr (Some t))) of
        Inl e \<Rightarrow> Inl e
      | Inr st \<Rightarrow>
          (case (case ud_completedAt data of
                   Absent \<Rightarrow> Inr Absent
                 | Null \<Rightarrow> Inr Null
                 | Val c \<Rightarrow> (case toDriver c of Inl e \<Rightarrow> Inl e | Inr t \<Rightarrow> Inr (Val t))) of
             Inl e \<Rightarrow> Inl e
           | Inr co \<Rightarrow>
               Inr \<lparr> set_name = ud_name data, set_startedAt = st, set_completedAt = co,
                     set_updatedAt = Some (clock ev) \<rparr>))"

text \<open>
  \<open>updateWorkout(workoutId, data)\<close>: the caller is resolved, ownership is verified by a
  read (round trip 0), and the update (round trip 1) is \<open>where(eq(workouts.id, workoutId))\<close>.
\<close>

definition updateWorkout_auth ::
  "env \<Rightarrow> int \<Rightarrow> updateData \<Rightarrow> db \<Rightarrow> thrown + (workout option \<times> db)" where
  "updateWorkout_auth ev workoutId data d =
     (case auth ev of
        None \<Rightarrow> Inl (JsError ''Unauthorized'')
      | Some userId \<Rightarrow>
          if userId = [] then Inl (JsError ''Unauthorized'')
          else
            (case findFirst_workouts ev 0
                    (\<lambda>w. w_id w = workoutId \<and> w_userId w = userId) d of
               Inl e \<Rightarrow> Inl e
             | Inr None \<Rightarrow> Inl (JsError ''Workout not found or unauthorized'')
             | Inr (Some existingWorkout) \<Rightarrow>
                 (case updateData_set ev data of
                    Inl e \<Rightarrow> Inl e
                  | Inr s \<Rightarrow>
                      (case update_workouts ev 1 s (\<lambda>w. w_id w = workoutId) d of
                         Inl e \<Rightarrow> Inl e
                       | Inr (rows, d') \<Rightarrow> Inr (first rows, d')))))"

section \<open>Server actions\<close>

text \<open>
  What an action returns: \<open>{ success: true, workout }\<close> or \<open>{ success: false, error }\<close>.
  What it leaves behind: the database and the paths given to \<open>revalidatePath\<close>
  (\<open>/dashboard\<close> and \<open>/dashboard/workout/<id>\<close>). Console output is not part of the model.
\<close>

datatype actionResult = Success "workout option" | Failure string

datatype path = Dashboard | DashboardWorkout int

record world =
  store :: db
  revalidated :: "path list"

text \<open>\<open>new Date(s)\<close> of a string.\<close>

definition newDate :: "env \<Rightarrow> string \<Rightarrow> jsdate" where
  "newDate ev s = (case dateParse ev s of None \<Rightarrow> InvalidDate | Some t \<Rightarrow> Date t)"

subsection \<open>createWorkoutAction (the actions of the new-workout page)\<close>

text \<open>A Zod issue is the name of the field and the message; a \<open>ZodError\<close> carries the issues.\<close>

type_synonym issue = "string \<times> string"

datatype zodError = ZodError "issue list"

record createWorkoutInput =
  cwi_name :: "string option"
  cwi_startedAt :: string

text \<open>
  \<open>createWorkoutSchema\<close>: \<open>name\<close> is an optional string of 1 to 255 characters,
  \<open>startedAt\<close> a string that \<open>Date.parse\<close> accepts.
\<close>

definition createWorkoutSchema_issues :: "env \<Rightarrow> createWorkoutInput \<Rightarrow> issue list" where
  "createWorkoutSchema_issues ev input =
     (case cwi_name input of
        None \<Rightarrow> []
      | Some n \<Rightarrow>
          (if length n < 1 then [(''name'', ''Workout name is required'')] else [])
          @ (if length n > 255 then [(''name'', ''Name is too long'')] else []))
     @ (if dateParse ev (cwi_startedAt input) = None
        then [(''startedAt'', ''Invalid date format'')] else [])"

definition createWorkoutSchema_parse ::
  "env \<Rightarrow> createWorkoutInput \<Rightarrow> zodError + createWorkoutInput" where
  "createWorkoutSchema_parse ev input =
     (if createWorkoutSchema_issues ev input = [] then Inr input
      else Inl (ZodError (createWorkoutSchema_issues ev input)))"

text \<open>
  The parse stands before the \<open>try\<close>, so its \<open>ZodError\<close> leaves the action; a fault of the
  data helper is caught and answered with a fixed message.
\<close>

definition createWorkoutAction ::
  "env \<Rightarrow> createWorkoutInput \<Rightarrow> world \<Rightarrow> (zodError + actionResult) \<times> world" where
  "createWorkoutAction ev input wl =
     (case createWorkoutSchema_parse ev input of
        Inl z \<Rightarrow> (Inl z, wl)
      | Inr validatedData \<Rightarrow>
          (case auth ev of
             None \<Rightarrow> (Inr (Failure ''Unauthorized''), wl)
           | Some userId \<Rightarrow>
               if userId = [] then (Inr (Failure ''Unauthorized''), wl)
               else
                 (case createWorkout ev
                         \<lparr> cwd_userId = userId, cwd_name = cwi_name validatedData,
                           cwd_startedAt = newDate ev (cwi_startedAt validatedData) \<rparr>
                         (store wl) of
                    Inl e \<Rightarrow> (Inr (Failure ''Failed to create workout''), wl)
                  | Inr (workout, d') \<Rightarrow>
                      (Inr (Success workout),
                       \<lparr> store = d', revalidated = revalidated wl @ [Dashboard] \<rparr>))))"

subsection \<open>updateWorkoutAction (app/dashboard/workout/[workoutId]/actions.ts)\<close>

record updateWorkoutInput =
  uwi_workoutId :: int
  uwi_name :: "string option"
  uwi_startedAt :: "string option"
  uwi_completedAt :: "string optnull"

text \<open>
  The \<open>updateData\<close> object: \<open>name\<close> when it is not \<open>undefined\<close>, \<open>startedAt\<close> when it is a
  non-empty string, \<open>completedAt\<close> when it is \<open>null\<close> or a non-empty string.
\<close>

definition updateWorkoutAction_data :: "env \<Rightarrow> updateWorkoutInput \<Rightarrow> updateData" where
  "updateWorkoutAction_data ev data =
     \<lparr> ud_name = uwi_name data,
       ud_startedAt =
         (case uwi_startedAt data of
            None \<Rightarrow> None
          | Some s \<Rightarrow> if s = [] then None else Some (newDate ev s)),
       ud_completedAt =
         (case uwi_completedAt data of
            Absent \<Rightarrow> Absent
          | Null \<Rightarrow> Null
          | Val s \<Rightarrow> if s = [] then Absent else Val (newDate ev s)) \<rparr>"

text \<open>
  \<open>error instanceof Error ? error.message : 'Failed to update workout'\<close>.
\<close>

fun updateWorkoutAction_error :: "thrown \<Rightarrow> string" where
  "updateWorkoutAction_error (JsError m) = m"
| "updateWorkoutAction_error NonError = ''Failed to update workout''"

definition updateWorkoutAction :: "env \<Rightarrow> updateWorkoutInput \<Rightarrow> world \<Rightarrow> actionResult \<times> world" where
  "updateWorkoutAction ev data wl =
     (case updateWorkout_auth ev (uwi_workoutId data) (updateWorkoutAction_data ev data)
             (store wl) of
        Inl e \<Rightarrow> (Failure (updateWorkoutAction_error e), wl)
      | Inr (workout, d') \<Rightarrow>
          (Success workout,
           \<lparr> store = d',
             revalidated = revalidated wl @ [Dashboard, DashboardWorkout (uwi_workoutId data)] \<rparr>))"

section \<open>Presentation of the name\<close>

text \<open>The form of the new-workout page sends \<open>name || undefined\<close>.\<close>

definition or_undefined :: "string \<Rightarrow> string option" where
  "or_undefined s = (if s = [] then None else Some s)"

text \<open>The list shows \<open>workout.name || "Untitled Workout"\<close>.\<close>

definition cardTitle :: "workout \<Rightarrow> string" where
  "cardTitle w =
     (case w_name w of
        None \<Rightarrow> ''Untitled Workout''
      | Some n \<Rightarrow> if n = [] then ''Untitled Workout'' else n)"

section \<open>Example data\<close>

definition env0 :: env where
  "env0 = \<lparr> auth = Some ''u1'', clock = 2000, dbNow = 1000, fault = (\<lambda>k. None),
            dateParse = (\<lambda>s. if s = ''2025-01-10T08:00:00Z'' then Some 1736496000000
                              else if s = ''2025-01-10T09:00:00Z'' then Some 1736499600000
                              else None),
            localTZA = (\<lambda>t isUTC. 0) \<rparr>"

definition legDay :: workout where
  "legDay = \<lparr> w_id = 1, w_userId = ''u1'', w_name = Some ''Leg Day'',
              w_startedAt = 1736496000000, w_completedAt = None,
              w_createdAt = 10, w_updatedAt = 10 \<rparr>"

definition pushDay :: workout where
  "pushDay = \<lparr> w_id = 2, w_userId = ''u2'', w_name = None,
               w_startedAt = 1736499600000, w_completedAt = None,
               w_createdAt = 20, w_updatedAt = 20 \<rparr>"

definition db0 :: db where
  "db0 = \<lparr> exercises = [\<lparr> e_id = 1, e_name = ''Squat'', e_createdAt = 1, e_updatedAt = 1 \<rparr>],
           workouts = [legDay, pushDay],
           workoutExercises =
             [\<lparr> we_id = 1, we_workoutId = 1, we_exerciseId = 1, we_order = 2, we_createdAt = 11 \<rparr>,
              \<lparr> we_id = 2, we_workoutId = 1, we_exerciseId = 1, we_order = 1, we_createdAt = 12 \<rparr>,
              \<lparr> we_id = 3, we_workoutId = 2, we_exerciseId = 1, we_order = 1, we_createdAt = 21 \<rparr>],
           sets =
             [\<lparr> s_id = 1, s_workoutExerciseId = 1, s_setNumber = 2, s_weight = 10000, s_reps = 5,
                s_createdAt = 13 \<rparr>,
              \<lparr> s_id = 2, s_workoutExerciseId = 1, s_setNumber = 1, s_weight = 9000, s_reps = 5,
                s_createdAt = 14 \<rparr>,
              \<lparr> s_id = 3, s_workoutExerciseId = 3, s_setNumber = 1, s_weight = 6000, s_reps = 8,
                s_createdAt = 22 \<rparr>],
           workouts_id_seq = 3 \<rparr>"

definition pullDay :: workout where
  "pullDay = \<lparr> w_id = 3, w_userId = ''u1'', w_name = Some ''Pull Day'',
               w_startedAt = 1736499600000, w_completedAt = None,
               w_createdAt = 1000, w_updatedAt = 1000 \<rparr>"

definition edgeDay :: workout where
  "edgeDay = \<lparr> w_id = 4, w_userId = ''u1'', w_name = Some ''Late'',
               w_startedAt = 1736553599999, w_completedAt = None,
               w_createdAt = 30, w_updatedAt = 30 \<rparr>"

definition db1 :: db where
  "db1 = db0\<lparr> workouts := [legDay, pushDay, pullDay, edgeDay], workouts_id_seq := 5 \<rparr>"

definition world0 :: world where
  "world0 = \<lparr> store = db0, revalidated = [] \<rparr>"

definition envAnon :: env where
  "envAnon = env0\<lparr> auth := None \<rparr>"

definition envDown :: env where
  "envDown = env0\<lparr> fault := (\<lambda>k. Some (JsError ''connect ECONNREFUSED 127.0.0.1:5432'')) \<rparr>"

definition inputOK :: createWorkoutInput where
  "inputOK = \<lparr> cwi_name = Some ''Pull Day'', cwi_startedAt = ''2025-01-10T09:00:00Z'' \<rparr>"

definition rename1 :: updateWorkoutInput where
  "rename1 = \<lparr> uwi_workoutId = 1, uwi_name = Some ''Legs'',
               uwi_startedAt = Some ''2025-01-10T09:00:00Z'', uwi_completedAt = Null \<rparr>"

definition dayResult :: "workoutWith list" where
  "dayResult =
     [\<lparr> ww_row = pullDay, ww_workoutExercises = [] \<rparr>,
      \<lparr> ww_row = legDay,
        ww_workoutExercises =
          [\<lparr> wx_row = \<lparr> we_id = 2, we_workoutId = 1, we_exerciseId = 1, we_order = 1,
                         we_createdAt = 12 \<rparr>,
              wx_exercise = Some \<lparr> e_id = 1, e_name = ''Squat'', e_createdAt = 1,
                                   e_updatedAt = 1 \<rparr>,
              wx_sets = [] \<rparr>,
           \<lparr> wx_row = \<lparr> we_id = 1, we_workoutId = 1, we_exerciseId = 1, we_order = 2,
                         we_createdAt = 11 \<rparr>,
              wx_exercise = Some \<lparr> e_id = 1, e_name = ''Squat'', e_createdAt = 1,
                                   e_updatedAt = 1 \<rparr>,
              wx_sets = [\<lparr> s_id = 2, s_workoutExerciseId = 1, s_setNumber = 1,
                           s_weight = 9000, s_reps = 5, s_createdAt = 14 \<rparr>,
                         \<lparr> s_id = 1, s_workoutExerciseId = 1, s_setNumber = 2,
                           s_weight = 10000, s_reps = 5, s_createdAt = 13 \<rparr>] \<rparr>] \<rparr>]"

text \<open>
  New York around 9 March 2025: five hours behind UTC until 02:00 local time
  (07:00 UTC) of that day, four hours behind from then on; a local time in the skipped
  hour is read with the earlier offset.
\<close>

definition nyTZA :: "timestamp \<Rightarrow> bool \<Rightarrow> int" where
  "nyTZA t isUTC =
     (if isUTC then (if t < 1741503600000 then - 18000000 else - 14400000)
      else (if t < 1741489200000 then - 18000000 else - 14400000))"

definition envNY :: env where
  "envNY = env0\<lparr> localTZA := nyTZA \<rparr>"

definition noonNY :: workout where
  "noonNY = \<lparr> w_id = 1, w_userId = ''u1'', w_name = Some ''Noon'',
              w_startedAt = 1741536000000, w_completedAt = None,
              w_createdAt = 40, w_updatedAt = 40 \<rparr>"

definition eveningNY :: workout where
  "eveningNY = \<lparr> w_id = 2, w_userId = ''u1'', w_name = Some ''Evening'',
                 w_startedAt = 1741577400000, w_completedAt = None,
                 w_createdAt = 41, w_updatedAt = 41 \<rparr>"

definition nextDayNY :: workout where
  "nextDayNY = \<lparr> w_id = 3, w_userId = ''u1'', w_name = Some ''Next day'',
                 w_startedAt = 1741581000000, w_completedAt = None,
                 w_createdAt = 42, w_updatedAt = 42 \<rparr>"

definition otherNY :: workout where
  "otherNY = \<lparr> w_id = 4, w_userId = ''u2'', w_name = None,
               w_startedAt = 1741536000000, w_completedAt = None,
               w_createdAt = 43, w_updatedAt = 43 \<rparr>"

definition dbNY :: db where
  "dbNY = \<lparr> exercises = [], workouts = [noonNY, eveningNY, nextDayNY, otherNY],
            workoutExercises = [], sets = [], workouts_id_seq = 5 \<rparr>"

definition resultNY :: "workoutWith list" where
  "resultNY = [\<lparr> ww_row = eveningNY, ww_workoutExercises = [] \<rparr>,
               \<lparr> ww_row = noonNY, ww_workoutExercises = [] \<rparr>]"

definition doneDay :: workout where
  "doneDay = \<lparr> w_id = 5, w_userId = ''u1'', w_name = Some ''Done'',
               w_startedAt = 1736496000000, w_completedAt = Some 1736503200000,
               w_createdAt = 50, w_updatedAt = 60 \<rparr>"

definition db2 :: db where
  "db2 = db0\<lparr> workouts := [doneDay, pushDay], workouts_id_seq := 6 \<rparr>"

section \<open>Unfolding the actions and the example data\<close>

lemmas action_defs =
  createWorkoutAction_def createWorkoutSchema_parse_def createWorkoutSchema_issues_def
  createWorkout_def insert_workouts_def newDate_def updateWorkoutAction_def
  updateWorkoutAction_data_def updateWorkout_auth_def findFirst_workouts_def
  updateData_set_def update_workouts_def applySet_def

lemmas example_defs =
  env0_def envAnon_def envDown_def world0_def db0_def db1_def legDay_def pushDay_def
  pullDay_def edgeDay_def inputOK_def rename1_def envNY_def nyTZA_def noonNY_def
  eveningNY_def nextDayNY_def otherNY_def dbNY_def resultNY_def doneDay_def db2_def

section \<open>Reading one workout\<close>

lemma filter_pk_other_owner:
  assumes "distinct (map w_id ws)" and "W \<in> set ws" and "u \<noteq> w_userId W"
  shows "filter (\<lambda>w. w_id w = w_id W \<and> w_userId w = u) ws = []"
proof -
  have "\<And>w. w \<in> set ws \<Longrightarrow> w_id w = w_id W \<Longrightarrow> w = W"
    using assms(1,2) by (meson distinct_map inj_onD)
  then show ?thesis using assms(3) by (auto simp: filter_empty_conv)
qed

lemma filter_pk_owner:
  assumes "distinct (map w_id ws)" and "W \<in> set ws"
  shows "filter (\<lambda>w. w_id w = w_id W \<and> w_userId w = w_userId W) ws = [W]"
  using assms
proof (induction ws)
  case Nil
  then show ?case by simp
next
  case (Cons a ws)
  show ?case
  proof (cases "a = W")
    case True
    then have "w_id W \<notin> w_id ` set ws" using Cons.prems(1) by simp
    then have "\<And>x. x \<in> set ws \<Longrightarrow> w_id x \<noteq> w_id W" by (metis imageI)
    then have "filter (\<lambda>w. w_id w = w_id W \<and> w_userId w = w_userId W) ws = []"
      by (simp add: filter_empty_conv)
    with True show ?thesis by simp
  next
    case False
    then have "W \<in> set ws" using Cons.prems(2) by simp
    moreover have "w_id a \<noteq> w_id W"
      using Cons.prems(1) \<open>W \<in> set ws\<close> by auto
    ultimately show ?thesis using Cons by simp
  qed
qed

text \<open>
  C1. A workout \<open>W\<close> of the table, read with the id of \<open>W\<close> by a user other than its
  owner, is absent (or the storage fault is passed on); read by its owner it is \<open>W\<close>;
  and whatever record \<open>getWorkout i u\<close> returns is a row with id \<open>i\<close> and owner \<open>u\<close>.
\<close>

theorem getWorkout_owner_only:
  assumes "pk_workouts d" and "W \<in> set (workouts d)" and "U2 \<noteq> w_userId W"
  shows "getWorkout ev (w_id W) U2 d = (case fault ev 0 of Some e \<Rightarrow> Inl e | None \<Rightarrow> Inr None)
       \<and> getWorkout ev (w_id W) U2 d \<noteq> Inr (Some W)
       \<and> getWorkout ev (w_id W) (w_userId W) d =
           (case fault ev 0 of Some e \<Rightarrow> Inl e | None \<Rightarrow> Inr (Some W))
       \<and> (\<forall>i u w. getWorkout ev i u d = Inr (Some w)
            \<longrightarrow> w \<in> set (workouts d) \<and> w_id w = i \<and> w_userId w = u)"
proof -
  have pk: "distinct (map w_id (workouts d))" using assms(1) by (simp add: pk_workouts_def)
  have other: "filter (\<lambda>w. w_id w = w_id W \<and> w_userId w = U2) (workouts d) = []"
    by (rule filter_pk_other_owner [OF pk assms(2) assms(3)])
  have own: "filter (\<lambda>w. w_id w = w_id W \<and> w_userId w = w_userId W) (workouts d) = [W]"
    by (rule filter_pk_owner [OF pk assms(2)])
  have a: "getWorkout ev (w_id W) U2 d = (case fault ev 0 of Some e \<Rightarrow> Inl e | None \<Rightarrow> Inr None)"
    by (simp add: getWorkout_def select_workouts_def other split: option.splits)
  have b: "getWorkout ev (w_id W) U2 d \<noteq> Inr (Some W)"
    by (simp add: a split: option.splits)
  have c: "getWorkout ev (w_id W) (w_userId W) d =
           (case fault ev 0 of Some e \<Rightarrow> Inl e | None \<Rightarrow> Inr (Some W))"
    by (simp add: getWorkout_def select_workouts_def own split: option.splits)
  have e: "\<forall>i u w. getWorkout ev i u d = Inr (Some w)
            \<longrightarrow> w \<in> set (workouts d) \<and> w_id w = i \<and> w_userId w = u"
  proof (intro allI impI)
    fix i u w
    assume h: "getWorkout ev i u d = Inr (Some w)"
    then have "first (take 1 (filter (\<lambda>w. w_id w = i \<and> w_userId w = u) (workouts d))) = Some w"
      by (auto simp: getWorkout_def select_workouts_def split: option.splits)
    then have "w \<in> set (filter (\<lambda>w. w_id w = i \<and> w_userId w = u) (workouts d))"
      by (cases "filter (\<lambda>w. w_id w = i \<and> w_userId w = u) (workouts d)") auto
    then show "w \<in> set (workouts d) \<and> w_id w = i \<and> w_userId w = u" by simp
  qed
  from a b c e show ?thesis by blast
qed

theorem getWorkout_owner_only_witness:
  "getWorkout env0 1 ''u2'' db0 = Inr None
   \<and> getWorkout env0 1 ''u2'' db0 \<noteq> Inr (Some legDay)
   \<and> getWorkout env0 1 ''u1'' db0 = Inr (Some legDay)"
proof -
  have pk: "pk_workouts db0"
    by (simp add: pk_workouts_def db0_def legDay_def pushDay_def)
  have mem: "legDay \<in> set (workouts db0)" by (simp add: db0_def)
  have ne: "''u2'' \<noteq> w_userId legDay" by (simp add: legDay_def)
  show ?thesis
    using getWorkout_owner_only [OF pk mem ne, of env0]
    by (simp add: legDay_def env0_def)
qed

section \<open>Partial update\<close>








section \<open>Delete and its cascade\<close>

text \<open>
  C7. Deleting a workout \<open>W\<close> of the table as its owner returns \<open>W\<close> and removes it,
  every workout exercise of \<open>W\<close> and every set of those workout exercises, and nothing
  else; no workout exercise with the id of \<open>W\<close> and no set of one of them remains. As
  another user nothing is deleted and absence is returned.
\<close>

theorem deleteWorkout_cascade:
  assumes "pk_workouts d" and "W \<in> set (workouts d)" and "fault ev 0 = None"
    and "U2 \<noteq> w_userId W"
  shows "\<exists>d'. deleteWorkout ev (w_id W) (w_userId W) d = Inr (Some W, d')
       \<and> workouts d' = filter (\<lambda>w. w \<noteq> W) (workouts d)
       \<and> workoutExercises d' = filter (\<lambda>x. we_workoutId x \<noteq> w_id W) (workoutExercises d)
       \<and> sets d' = filter (\<lambda>s. s_workoutExerciseId s \<notin>
                  we_id ` {x \<in> set (workoutExercises d). we_workoutId x = w_id W}) (sets d)
       \<and> exercises d' = exercises d
       \<and> (\<forall>x\<in>set (workoutExercises d'). we_workoutId x \<noteq> w_id W)
       \<and> (\<forall>s\<in>set (sets d'). \<forall>x\<in>set (workoutExercises d).
             we_workoutId x = w_id W \<longrightarrow> s_workoutExerciseId s \<noteq> we_id x)
       \<and> deleteWorkout ev (w_id W) U2 d = Inr (None, d)"
proof -
  have pk: "distinct (map w_id (workouts d))" using assms(1) by (simp add: pk_workouts_def)
  note own = filter_pk_owner [OF pk assms(2)]
  note other = filter_pk_other_owner [OF pk assms(2) assms(4)]
  have neg: "filter (\<lambda>w. w_id w = w_id W \<longrightarrow> w_userId w \<noteq> w_userId W) (workouts d)
             = filter (\<lambda>w. w \<noteq> W) (workouts d)"
  proof (rule filter_cong [OF refl])
    fix x assume "x \<in> set (workouts d)"
    then have "w_id x = w_id W \<Longrightarrow> x = W"
      using pk assms(2) by (meson distinct_map inj_onD)
    then show "(w_id x = w_id W \<longrightarrow> w_userId x \<noteq> w_userId W) = (x \<noteq> W)" by auto
  qed
  have all: "filter (\<lambda>w. w_id w = w_id W \<longrightarrow> w_userId w \<noteq> U2) (workouts d) = workouts d"
    using other by (simp add: filter_empty_conv)
  show ?thesis
    by (auto simp add: deleteWorkout_def delete_workouts_def assms(3) own other neg all Let_def
        list_all_iff)
qed

theorem deleteWorkout_cascade_witness:
  "deleteWorkout env0 1 ''u1'' db0
     = Inr (Some legDay,
            db0\<lparr> workouts := [pushDay],
                 workoutExercises := [\<lparr> we_id = 3, we_workoutId = 2, we_exerciseId = 1, we_order = 1,
                                        we_createdAt = 21 \<rparr>],
                 sets := [\<lparr> s_id = 3, s_workoutExerciseId = 3, s_setNumber = 1, s_weight = 6000,
                            s_reps = 8, s_createdAt = 22 \<rparr>] \<rparr>)
   \<and> deleteWorkout env0 1 ''u2'' db0 = Inr (None, db0)"
proof -
  have pk: "pk_workouts db0"
    by (simp add: pk_workouts_def db0_def legDay_def pushDay_def)
  have mem: "legDay \<in> set (workouts db0)" by (simp add: db0_def)
  have nf: "fault env0 0 = None" by (simp add: env0_def)
  have ne: "''u2'' \<noteq> w_userId legDay" by (simp add: legDay_def)
  have id1: "w_id legDay = 1" and u1: "w_userId legDay = ''u1''" by (simp_all add: legDay_def)
  from deleteWorkout_cascade [OF pk mem nf ne]
  obtain d' where r: "deleteWorkout env0 1 ''u1'' db0 = Inr (Some legDay, d')"
    and w: "workouts d' = filter (\<lambda>w. w \<noteq> legDay) (workouts db0)"
    and x: "workoutExercises d' = filter (\<lambda>x. we_workoutId x \<noteq> 1) (workoutExercises db0)"
    and s: "sets d' = filter (\<lambda>s. s_workoutExerciseId s \<notin>
                  we_id ` {x \<in> set (workoutExercises db0). we_workoutId x = 1}) (sets db0)"
    and e: "exercises d' = exercises db0"
    and n: "deleteWorkout env0 1 ''u2'' db0 = Inr (None, db0)"
    unfolding id1 u1 by blast
  have "d' = db0\<lparr> workouts := [pushDay],
                 workoutExercises := [\<lparr> we_id = 3, we_workoutId = 2, we_exerciseId = 1, we_order = 1,
                                        we_createdAt = 21 \<rparr>],
                 sets := [\<lparr> s_id = 3, s_workoutExerciseId = 3, s_setNumber = 1, s_weight = 6000,
                            s_reps = 8, s_createdAt = 22 \<rparr>] \<rparr>"
    using r by (simp add: deleteWorkout_def delete_workouts_def env0_def db0_def legDay_def
        pushDay_def)
  with r n show ?thesis by simp
qed

section \<open>Create, then read\<close>




section \<open>Workouts of a day\<close>

lemma setHours_local:
  assumes "setHours tza (Date D) h m s ms = Date r"
  shows "r + tza (((D + tza D True) div msPerDay) * msPerDay
                   + (h * 3600000 + m * 60000 + s * 1000 + ms)) False
         = ((D + tza D True) div msPerDay) * msPerDay
           + (h * 3600000 + m * 60000 + s * 1000 + ms)"
  using assms by (simp add: setHours_def timeClip_def Let_def split: if_splits)

lemma local_day_bounds:
  "(t div msPerDay) * msPerDay \<le> t \<and> t < (t div msPerDay) * msPerDay + msPerDay"
proof -
  have "0 \<le> t mod msPerDay" and "t mod msPerDay < msPerDay"
    by (simp_all add: msPerDay_def)
  moreover have "t = (t div msPerDay) * msPerDay + t mod msPerDay" by simp
  ultimately show ?thesis by linarith
qed

lemma orderBy_desc_sorted: "sorted_wrt (\<ge>) (map f (orderBy_desc f xs))"
proof -
  have "sorted (map (\<lambda>x. - f x) (sort_key (\<lambda>x. - f x) xs))" by (rule sorted_sort_key)
  then show ?thesis by (simp add: orderBy_desc_def sorted_wrt_map)
qed

lemma orderBy_desc_mset: "mset (orderBy_desc f xs) = mset xs"
  by (simp add: orderBy_desc_def)

lemma orderBy_asc_sorted: "sorted (map f (orderBy_asc f xs))"
  by (simp add: orderBy_asc_def)

lemma orderBy_asc_mset: "mset (orderBy_asc f xs) = mset xs"
  by (simp add: orderBy_asc_def)

lemma with_sets_ordered:
  "sorted (map s_setNumber (with_sets d x))
   \<and> mset (with_sets d x) = filter_mset (\<lambda>s. s_workoutExerciseId s = we_id x) (mset (sets d))"
  by (simp add: with_sets_def orderBy_asc_sorted orderBy_asc_mset)

lemma with_workoutExercises_rows:
  "map wx_row (with_workoutExercises d w)
   = orderBy_asc we_order (filter (\<lambda>x. we_workoutId x = w_id w) (workoutExercises d))"
  by (simp add: with_workoutExercises_def comp_def)

lemma with_workoutExercises_ordered:
  "sorted (map (we_order \<circ> wx_row) (with_workoutExercises d w))
   \<and> mset (map wx_row (with_workoutExercises d w))
       = filter_mset (\<lambda>x. we_workoutId x = w_id w) (mset (workoutExercises d))"
proof -
  have "sorted (map we_order (map wx_row (with_workoutExercises d w)))"
    by (simp only: with_workoutExercises_rows orderBy_asc_sorted)
  then have "sorted (map (we_order \<circ> wx_row) (with_workoutExercises d w))" by simp
  moreover have "mset (map wx_row (with_workoutExercises d w))
       = filter_mset (\<lambda>x. we_workoutId x = w_id w) (mset (workoutExercises d))"
    by (simp only: with_workoutExercises_rows orderBy_asc_mset mset_filter)
  ultimately show ?thesis by simp
qed

lemma with_workoutExercises_sets:
  assumes "wx \<in> set (with_workoutExercises d w)"
  shows "wx_sets wx = with_sets d (wx_row wx)"
  using assms by (auto simp: with_workoutExercises_def)

lemma findMany_rows:
  assumes "findMany_workouts ev k p ord d = Inr ws"
  shows "map ww_row ws = ord (filter p (workouts d))
       \<and> (\<forall>ww\<in>set ws. ww_workoutExercises ww = with_workoutExercises d (ww_row ww))"
  using assms by (auto simp: findMany_workouts_def comp_def split: option.splits)

text \<open>
  C5. For a resolved caller \<open>U\<close>, no storage fault, and a valid date \<open>D\<close> for which
  \<open>setHours\<close> gives the dates \<open>lo\<close> (\<open>D\<close> at 00:00:00.000) and \<open>hi\<close> (\<open>D\<close> at
  23:59:59.999): read in local time, \<open>lo\<close> is the start and \<open>hi\<close> the last millisecond of
  the local day of \<open>D\<close>, and \<open>getUserWorkoutsByDate\<close> returns exactly the workouts of
  \<open>U\<close> whose \<open>startedAt\<close> lies in \<open>[lo, hi)\<close>, latest first; in each workout the workout
  exercises are those of the workout by ascending \<open>order\<close>, and in each of them the sets
  are its sets by ascending \<open>setNumber\<close>.
\<close>

theorem getUserWorkoutsByDate_window:
  assumes "auth ev = Some U" and "U \<noteq> []" and "fault ev 0 = None"
    and "setHours (localTZA ev) (Date D) 0 0 0 0 = Date lo"
    and "setHours (localTZA ev) (Date D) 23 59 59 999 = Date hi"
  shows "\<exists>day ws.
           day = (D + localTZA ev D True) div msPerDay
         \<and> day * msPerDay \<le> D + localTZA ev D True
         \<and> D + localTZA ev D True < day * msPerDay + msPerDay
         \<and> lo + localTZA ev (day * msPerDay) False = day * msPerDay
         \<and> hi + localTZA ev (day * msPerDay + 86399999) False = day * msPerDay + 86399999
         \<and> getUserWorkoutsByDate ev (Date D) d = Inr ws
         \<and> mset (map ww_row ws)
             = filter_mset (\<lambda>w. w_userId w = U \<and> lo \<le> w_startedAt w \<and> w_startedAt w < hi)
                 (mset (workouts d))
         \<and> sorted_wrt (\<ge>) (map (w_startedAt \<circ> ww_row) ws)
         \<and> (\<forall>ww\<in>set ws.
               sorted (map (we_order \<circ> wx_row) (ww_workoutExercises ww))
             \<and> mset (map wx_row (ww_workoutExercises ww))
                 = filter_mset (\<lambda>x. we_workoutId x = w_id (ww_row ww)) (mset (workoutExercises d))
             \<and> (\<forall>wx\<in>set (ww_workoutExercises ww).
                   sorted (map s_setNumber (wx_sets wx))
                 \<and> mset (wx_sets wx)
                     = filter_mset (\<lambda>s. s_workoutExerciseId s = we_id (wx_row wx))
                         (mset (sets d))))"
proof -
  define day where "day = (D + localTZA ev D True) div msPerDay"
  define p where "p = (\<lambda>w::workout. w_userId w = U \<and> lo \<le> w_startedAt w \<and> w_startedAt w < hi)"
  define ws where "ws = map (\<lambda>w. \<lparr> ww_row = w, ww_workoutExercises = with_workoutExercises d w \<rparr>)
                           (orderBy_desc w_startedAt (filter p (workouts d)))"
  note s = assms(4) and e = assms(5)
  have b: "day * msPerDay \<le> D + localTZA ev D True
           \<and> D + localTZA ev D True < day * msPerDay + msPerDay"
    unfolding day_def by (rule local_day_bounds)
  have ls: "lo + localTZA ev (day * msPerDay) False = day * msPerDay"
    using setHours_local [OF s] by (simp add: day_def)
  have le: "hi + localTZA ev (day * msPerDay + 86399999) False = day * msPerDay + 86399999"
    using setHours_local [OF e] by (simp add: day_def)
  have fm: "findMany_workouts ev 0 p (orderBy_desc w_startedAt) d = Inr ws"
    by (simp add: findMany_workouts_def assms(3) ws_def)
  have g: "getUserWorkoutsByDate ev (Date D) d = Inr ws"
    using fm by (simp add: getUserWorkoutsByDate_def assms(1,2) s e Let_def p_def)
  note rows = findMany_rows [OF fm]
  have r: "map ww_row ws = orderBy_desc w_startedAt (filter p (workouts d))"
    using rows by blast
  have m: "mset (map ww_row ws) = filter_mset p (mset (workouts d))"
    by (simp only: r orderBy_desc_mset mset_filter)
  have "map (w_startedAt \<circ> ww_row) ws = map w_startedAt (map ww_row ws)" by simp
  then have o: "sorted_wrt (\<ge>) (map (w_startedAt \<circ> ww_row) ws)"
    by (simp only: r orderBy_desc_sorted)
  have n: "\<forall>ww\<in>set ws.
               sorted (map (we_order \<circ> wx_row) (ww_workoutExercises ww))
             \<and> mset (map wx_row (ww_workoutExercises ww))
                 = filter_mset (\<lambda>x. we_workoutId x = w_id (ww_row ww)) (mset (workoutExercises d))
             \<and> (\<forall>wx\<in>set (ww_workoutExercises ww).
                   sorted (map s_setNumber (wx_sets wx))
                 \<and> mset (wx_sets wx)
                     = filter_mset (\<lambda>s. s_workoutExerciseId s = we_id (wx_row wx))
                         (mset (sets d)))"
  proof
    fix ww assume "ww \<in> set ws"
    then have c: "ww_workoutExercises ww = with_workoutExercises d (ww_row ww)"
      using rows by blast
    show "sorted (map (we_order \<circ> wx_row) (ww_workoutExercises ww))
             \<and> mset (map wx_row (ww_workoutExercises ww))
                 = filter_mset (\<lambda>x. we_workoutId x = w_id (ww_row ww)) (mset (workoutExercises d))
             \<and> (\<forall>wx\<in>set (ww_workoutExercises ww).
                   sorted (map s_setNumber (wx_sets wx))
                 \<and> mset (wx_sets wx)
                     = filter_mset (\<lambda>s. s_workoutExerciseId s = we_id (wx_row wx))
                         (mset (sets d)))"
      unfolding c
      using with_workoutExercises_ordered [of d "ww_row ww"] with_sets_ordered
        with_workoutExercises_sets [of _ d "ww_row ww"]
      by simp
  qed
  show ?thesis
  proof (intro exI conjI)
    show "day = (D + localTZA ev D True) div msPerDay" by (rule day_def)
    show "day * msPerDay \<le> D + localTZA ev D True" using b by simp
    show "D + localTZA ev D True < day * msPerDay + msPerDay" using b by simp
    show "lo + localTZA ev (day * msPerDay) False = day * msPerDay" by (rule ls)
    show "hi + localTZA ev (day * msPerDay + 86399999) False = day * msPerDay + 86399999"
      by (rule le)
    show "getUserWorkoutsByDate ev (Date D) d = Inr ws" by (rule g)
    show "mset (map ww_row ws)
             = filter_mset (\<lambda>w. w_userId w = U \<and> lo \<le> w_startedAt w \<and> w_startedAt w < hi)
                 (mset (workouts d))" using m by (simp add: p_def)
    show "sorted_wrt (\<ge>) (map (w_startedAt \<circ> ww_row) ws)" by (rule o)
    show "\<forall>ww\<in>set ws.
               sorted (map (we_order \<circ> wx_row) (ww_workoutExercises ww))
             \<and> mset (map wx_row (ww_workoutExercises ww))
                 = filter_mset (\<lambda>x. we_workoutId x = w_id (ww_row ww)) (mset (workoutExercises d))
             \<and> (\<forall>wx\<in>set (ww_workoutExercises ww).
                   sorted (map s_setNumber (wx_sets wx))
                 \<and> mset (wx_sets wx)
                     = filter_mset (\<lambda>s. s_workoutExerciseId s = we_id (wx_row wx))
                         (mset (sets d)))" by (rule n)
  qed
qed

lemma day_value:
  "getUserWorkoutsByDate env0 (Date 1736500000000) db1 = Inr dayResult"
  by (simp add: getUserWorkoutsByDate_def setHours_def timeClip_def msPerDay_def
      findMany_workouts_def with_workoutExercises_def with_sets_def orderBy_desc_def
      orderBy_asc_def example_defs dayResult_def Let_def)

lemma ny_value:
  "getUserWorkoutsByDate envNY (Date 1741536000000) dbNY = Inr resultNY"
  by (simp add: getUserWorkoutsByDate_def setHours_def timeClip_def msPerDay_def
      findMany_workouts_def with_workoutExercises_def with_sets_def orderBy_desc_def
      orderBy_asc_def example_defs Let_def)

text \<open>
  The witness: a day in UTC, and 9 March 2025 in New York, whose local day has 23
  hours; a workout started at 00:30 of the next local day is not returned.
\<close>

theorem getUserWorkoutsByDate_window_witness:
  "setHours (localTZA env0) (Date 1736500000000) 0 0 0 0 = Date 1736467200000
   \<and> setHours (localTZA env0) (Date 1736500000000) 23 59 59 999 = Date 1736553599999
   \<and> getUserWorkoutsByDate env0 (Date 1736500000000) db1 = Inr dayResult
   \<and> mset (map ww_row dayResult)
       = filter_mset (\<lambda>w. w_userId w = ''u1'' \<and> 1736467200000 \<le> w_startedAt w
                           \<and> w_startedAt w < 1736553599999) (mset (workouts db1))
   \<and> map ww_row dayResult = [pullDay, legDay]
   \<and> w_startedAt edgeDay = 1736553599999
   \<and> setHours (localTZA envNY) (Date 1741536000000) 0 0 0 0 = Date 1741496400000
   \<and> setHours (localTZA envNY) (Date 1741536000000) 23 59 59 999 = Date 1741579199999
   \<and> getUserWorkoutsByDate envNY (Date 1741536000000) dbNY = Inr resultNY
   \<and> mset (map ww_row resultNY)
       = filter_mset (\<lambda>w. w_userId w = ''u1'' \<and> 1741496400000 \<le> w_startedAt w
                           \<and> w_startedAt w < 1741579199999) (mset (workouts dbNY))
   \<and> map ww_row resultNY = [eveningNY, noonNY]
   \<and> w_startedAt nextDayNY = 1741581000000"
proof -
  have a: "auth env0 = Some ''u1''" and n: "''u1'' \<noteq> []" and f: "fault env0 0 = None"
    by (simp_all add: example_defs)
  have s: "setHours (localTZA env0) (Date 1736500000000) 0 0 0 0 = Date 1736467200000"
    and e: "setHours (localTZA env0) (Date 1736500000000) 23 59 59 999 = Date 1736553599999"
    by (simp_all add: setHours_def timeClip_def msPerDay_def Let_def example_defs)
  from getUserWorkoutsByDate_window [OF a n f s e, of db1]
  obtain ws where
    g: "getUserWorkoutsByDate env0 (Date 1736500000000) db1 = Inr ws"
    and m: "mset (map ww_row ws)
             = filter_mset (\<lambda>w. w_userId w = ''u1'' \<and> 1736467200000 \<le> w_startedAt w
                                 \<and> w_startedAt w < 1736553599999) (mset (workouts db1))"
    by blast
  from g day_value have ws: "ws = dayResult" by simp
  have r: "map ww_row dayResult = [pullDay, legDay]" by (simp add: dayResult_def)
  have w: "w_startedAt edgeDay = 1736553599999" by (simp add: edgeDay_def)
  note m' = m [unfolded ws]
  have a2: "auth envNY = Some ''u1''" and f2: "fault envNY 0 = None"
    by (simp_all add: example_defs)
  have s2: "setHours (localTZA envNY) (Date 1741536000000) 0 0 0 0 = Date 1741496400000"
    and e2: "setHours (localTZA envNY) (Date 1741536000000) 23 59 59 999 = Date 1741579199999"
    by (simp_all add: setHours_def timeClip_def msPerDay_def Let_def example_defs)
  from getUserWorkoutsByDate_window [OF a2 n f2 s2 e2, of dbNY]
  obtain ws2 where
    g2: "getUserWorkoutsByDate envNY (Date 1741536000000) dbNY = Inr ws2"
    and m2: "mset (map ww_row ws2)
             = filter_mset (\<lambda>w. w_userId w = ''u1'' \<and> 1741496400000 \<le> w_startedAt w
                                 \<and> w_startedAt w < 1741579199999) (mset (workouts dbNY))"
    by blast
  from g2 ny_value have ws2: "ws2 = resultNY" by simp
  have r2: "map ww_row resultNY = [eveningNY, noonNY]" by (simp add: resultNY_def)
  have w2: "w_startedAt nextDayNY = 1741581000000" by (simp add: nextDayNY_def)
  note m2' = m2 [unfolded ws2]
  from s e day_value m' r w s2 e2 ny_value m2' r2 w2 show ?thesis by blast
qed

text \<open>
  When a bound of the day is not a date (the day lies at the end of the range of time
  values), the helper raises instead of returning.
\<close>

lemma toDriver_Inl: "toDriver x = Inl e \<Longrightarrow> e = JsError ''Invalid time value''"
  by (cases x) simp_all

lemma getUserWorkoutsByDate_unrepresentable:
  assumes "auth ev = Some U" and "U \<noteq> []"
    and "setHours (localTZA ev) date 0 0 0 0 = InvalidDate
         \<or> setHours (localTZA ev) date 23 59 59 999 = InvalidDate"
  shows "getUserWorkoutsByDate ev date d = Inl (JsError ''Invalid time value'')"
  using assms
  by (auto simp: getUserWorkoutsByDate_def Let_def split: sum.splits dest: toDriver_Inl)

text \<open>
  In a zone of one fixed offset the window is the 86399999 milliseconds from the local
  midnight at or before \<open>D\<close>.
\<close>

lemma setHours_fixed_offset:
  assumes "\<And>t u. tza t u = tz"
    and "setHours tza (Date D) 0 0 0 0 = Date lo"
    and "setHours tza (Date D) 23 59 59 999 = Date hi"
  shows "hi = lo + 86399999 \<and> lo \<le> D \<and> D < lo + msPerDay"
proof -
  from setHours_local [OF assms(2)] assms(1)
  have l: "lo + tz = ((D + tz) div msPerDay) * msPerDay" by simp
  from setHours_local [OF assms(3)] assms(1)
  have h: "hi + tz = ((D + tz) div msPerDay) * msPerDay + 86399999" by simp
  from local_day_bounds [of "D + tz"] l h show ?thesis by linarith
qed

text \<open>The two listings of all workouts of a user return that user's rows, latest first.\<close>

lemma getUserWorkouts_owner_sorted:
  assumes "getUserWorkouts ev u d = Inr ws"
  shows "mset ws = filter_mset (\<lambda>w. w_userId w = u) (mset (workouts d))
       \<and> sorted_wrt (\<ge>) (map w_startedAt ws)"
proof -
  from assms have "ws = orderBy_desc w_startedAt (filter (\<lambda>w. w_userId w = u) (workouts d))"
    by (auto simp: getUserWorkouts_def select_workouts_def split: option.splits)
  then show ?thesis by (simp add: orderBy_desc_mset orderBy_desc_sorted)
qed

lemma getUserWorkouts_auth_owner_sorted:
  assumes "getUserWorkouts_auth ev d = Inr ws"
  shows "\<exists>u. auth ev = Some u \<and> u \<noteq> []
       \<and> mset (map ww_row ws) = filter_mset (\<lambda>w. w_userId w = u) (mset (workouts d))
       \<and> sorted_wrt (\<ge>) (map (w_startedAt \<circ> ww_row) ws)
       \<and> (\<forall>ww\<in>set ws. sorted (map (we_order \<circ> wx_row) (ww_workoutExercises ww))
            \<and> (\<forall>wx\<in>set (ww_workoutExercises ww). sorted (map s_setNumber (wx_sets wx))))"
proof -
  from assms obtain u where a: "auth ev = Some u" and n: "u \<noteq> []"
    and fm: "findMany_workouts ev 0 (\<lambda>w. w_userId w = u) (orderBy_desc w_startedAt) d = Inr ws"
    by (auto simp: getUserWorkouts_auth_def split: option.splits if_splits)
  note rows = findMany_rows [OF fm]
  have r: "map ww_row ws = orderBy_desc w_startedAt (filter (\<lambda>w. w_userId w = u) (workouts d))"
    using rows by blast
  have m: "mset (map ww_row ws) = filter_mset (\<lambda>w. w_userId w = u) (mset (workouts d))"
    by (simp only: r orderBy_desc_mset mset_filter)
  have "map (w_startedAt \<circ> ww_row) ws = map w_startedAt (map ww_row ws)" by simp
  then have o: "sorted_wrt (\<ge>) (map (w_startedAt \<circ> ww_row) ws)"
    by (simp only: r orderBy_desc_sorted)
  have c: "\<forall>ww\<in>set ws. sorted (map (we_order \<circ> wx_row) (ww_workoutExercises ww))
            \<and> (\<forall>wx\<in>set (ww_workoutExercises ww). sorted (map s_setNumber (wx_sets wx)))"
  proof
    fix ww assume "ww \<in> set ws"
    then have e: "ww_workoutExercises ww = with_workoutExercises d (ww_row ww)"
      using rows by blast
    show "sorted (map (we_order \<circ> wx_row) (ww_workoutExercises ww))
            \<and> (\<forall>wx\<in>set (ww_workoutExercises ww). sorted (map s_setNumber (wx_sets wx)))"
      unfolding e
      using with_workoutExercises_ordered [of d "ww_row ww"] with_sets_ordered
        with_workoutExercises_sets [of _ d "ww_row ww"]
      by simp
  qed
  from a n m o c show ?thesis by blast
qed

section \<open>The two server actions, case by case\<close>

lemma createWorkoutAction_invalid:
  assumes "createWorkoutSchema_issues ev input \<noteq> []"
  shows "createWorkoutAction ev input wl
         = (Inl (ZodError (createWorkoutSchema_issues ev input)), wl)"
  using assms by (simp add: createWorkoutAction_def createWorkoutSchema_parse_def)

lemma createWorkoutAction_unauthorized:
  assumes "createWorkoutSchema_issues ev input = []"
    and "auth ev = None \<or> auth ev = Some []"
  shows "createWorkoutAction ev input wl = (Inr (Failure ''Unauthorized''), wl)"
  using assms by (auto simp: createWorkoutAction_def createWorkoutSchema_parse_def)

lemma issues_empty_date:
  assumes "createWorkoutSchema_issues ev input = []"
  shows "\<exists>t. dateParse ev (cwi_startedAt input) = Some t"
  using assms by (cases "dateParse ev (cwi_startedAt input)")
    (simp_all add: createWorkoutSchema_issues_def)

lemma createWorkoutAction_fault:
  assumes "createWorkoutSchema_issues ev input = []"
    and "auth ev = Some u" and "u \<noteq> []" and "fault ev 0 = Some e"
  shows "createWorkoutAction ev input wl = (Inr (Failure ''Failed to create workout''), wl)"
proof -
  obtain t where "dateParse ev (cwi_startedAt input) = Some t"
    using issues_empty_date [OF assms(1)] by blast
  then show ?thesis
    using assms
    by (simp add: createWorkoutAction_def createWorkoutSchema_parse_def createWorkout_def
        insert_workouts_def newDate_def)
qed

lemma createWorkoutAction_success:
  assumes "createWorkoutSchema_issues ev input = []"
    and "auth ev = Some u" and "u \<noteq> []" and "fault ev 0 = None"
  shows "\<exists>t. dateParse ev (cwi_startedAt input) = Some t
       \<and> createWorkoutAction ev input wl
         = (Inr (Success (Some \<lparr> w_id = workouts_id_seq (store wl), w_userId = u,
                                  w_name = cwi_name input, w_startedAt = t,
                                  w_completedAt = None, w_createdAt = dbNow ev,
                                  w_updatedAt = dbNow ev \<rparr>)),
            \<lparr> store = (store wl)\<lparr> workouts := workouts (store wl) @
                          [\<lparr> w_id = workouts_id_seq (store wl), w_userId = u,
                             w_name = cwi_name input, w_startedAt = t,
                             w_completedAt = None, w_createdAt = dbNow ev,
                             w_updatedAt = dbNow ev \<rparr>],
                        workouts_id_seq := workouts_id_seq (store wl) + 1 \<rparr>,
              revalidated = revalidated wl @ [Dashboard] \<rparr>)"
proof -
  obtain t where "dateParse ev (cwi_startedAt input) = Some t"
    using issues_empty_date [OF assms(1)] by blast
  then show ?thesis
    using assms
    by (simp add: createWorkoutAction_def createWorkoutSchema_parse_def createWorkout_def
        insert_workouts_def newDate_def Let_def)
qed

lemma updateWorkoutAction_unauthorized:
  assumes "auth ev = None \<or> auth ev = Some []"
  shows "updateWorkoutAction ev data wl = (Failure ''Unauthorized'', wl)"
  using assms by (auto simp: updateWorkoutAction_def updateWorkout_auth_def)

lemma updateWorkoutAction_read_fault:
  assumes "auth ev = Some u" and "u \<noteq> []" and "fault ev 0 = Some e"
  shows "updateWorkoutAction ev data wl = (Failure (updateWorkoutAction_error e), wl)"
  using assms
  by (simp add: updateWorkoutAction_def updateWorkout_auth_def findFirst_workouts_def)

lemma updateWorkoutAction_write_fault:
  assumes "auth ev = Some u" and "u \<noteq> []" and "fault ev 0 = None"
    and "W \<in> set (workouts (store wl))" and "w_id W = uwi_workoutId data" and "w_userId W = u"
    and "updateData_set ev (updateWorkoutAction_data ev data) = Inr s"
    and "fault ev 1 = Some e"
  shows "updateWorkoutAction ev data wl = (Failure (updateWorkoutAction_error e), wl)"
proof -
  have "filter (\<lambda>w. w_id w = uwi_workoutId data \<and> w_userId w = u) (workouts (store wl)) \<noteq> []"
    using assms(4,5,6) by (auto simp: filter_empty_conv)
  then obtain x xs where
    "filter (\<lambda>w. w_id w = uwi_workoutId data \<and> w_userId w = u) (workouts (store wl)) = x # xs"
    by (cases "filter (\<lambda>w. w_id w = uwi_workoutId data \<and> w_userId w = u) (workouts (store wl))")
      auto
  then show ?thesis
    using assms
    by (simp add: updateWorkoutAction_def updateWorkout_auth_def findFirst_workouts_def
        update_workouts_def)
qed

lemma applySet_userId: "w_userId (applySet s w) = w_userId w"
  by (simp add: applySet_def)

lemma applySet_id: "w_id (applySet s w) = w_id w"
  by (simp add: applySet_def)

lemma filter_map_untouched:
  assumes "\<forall>x\<in>set xs. g x = x \<or> (\<not> P x \<and> \<not> P (g x))"
  shows "filter P (map g xs) = filter P xs"
  using assms
proof (induction xs)
  case Nil
  then show ?case by simp
next
  case (Cons a xs)
  then have "g a = a \<or> (\<not> P a \<and> \<not> P (g a))" and "filter P (map g xs) = filter P xs"
    by simp_all
  then show ?case by auto
qed

lemma updateWorkout_auth_isolation:
  assumes "pk_workouts d" and "auth ev = Some u" and "u \<noteq> []"
    and "updateWorkout_auth ev i data d = Inr (r, d')"
  shows "filter (\<lambda>w. w_userId w \<noteq> u) (workouts d') = filter (\<lambda>w. w_userId w \<noteq> u) (workouts d)
       \<and> exercises d' = exercises d \<and> workoutExercises d' = workoutExercises d
       \<and> sets d' = sets d
       \<and> (\<exists>w. r = Some w \<and> w_userId w = u \<and> w_id w = i)"
proof -
  have pk: "distinct (map w_id (workouts d))" using assms(1) by (simp add: pk_workouts_def)
  from assms(2,3,4) obtain x s where
    ff: "first (filter (\<lambda>w. w_id w = i \<and> w_userId w = u) (workouts d)) = Some x"
    and up: "update_workouts ev 1 s (\<lambda>w. w_id w = i) d = Inr (map (applySet s) (filter (\<lambda>w. w_id w = i) (workouts d)), d')"
    and rr: "r = first (map (applySet s) (filter (\<lambda>w. w_id w = i) (workouts d)))"
    by (auto simp: updateWorkout_auth_def findFirst_workouts_def update_workouts_def
        split: option.splits sum.splits if_splits)
  from ff have xin: "x \<in> set (workouts d)" and xi: "w_id x = i" and xu: "w_userId x = u"
    by (cases "filter (\<lambda>w. w_id w = i \<and> w_userId w = u) (workouts d)";
        force dest: arg_cong [where f = set])+
  have own: "\<And>w. w \<in> set (workouts d) \<Longrightarrow> w_id w = i \<Longrightarrow> w = x"
    using pk xin xi by (metis distinct_map inj_onD)
  have d': "d' = d\<lparr> workouts := map (\<lambda>w. if w_id w = i then applySet s w else w) (workouts d) \<rparr>"
    using up by (auto simp: update_workouts_def split: option.splits)
  have f: "filter (\<lambda>w. w_userId w \<noteq> u) (map (\<lambda>w. if w_id w = i then applySet s w else w) (workouts d))
        = filter (\<lambda>w. w_userId w \<noteq> u) (workouts d)"
    by (rule filter_map_untouched) (use own xu in \<open>auto simp: applySet_userId\<close>)
  have "filter (\<lambda>w. w_id w = i) (workouts d) \<noteq> []"
    using xin xi by (auto simp: filter_empty_conv)
  then obtain y ys where fy: "filter (\<lambda>w. w_id w = i) (workouts d) = y # ys"
    by (cases "filter (\<lambda>w. w_id w = i) (workouts d)") auto
  then have "y \<in> set (filter (\<lambda>w. w_id w = i) (workouts d))" by simp
  then have "y = x" using own by simp
  then have "r = Some (applySet s x)" using rr fy by simp
  then show ?thesis using f d' xu xi by (simp add: applySet_userId applySet_id)
qed

lemma createWorkoutAction_success_owner:
  assumes "createWorkoutAction ev input wl = (Inr (Success r), wl')" and "auth ev = Some u"
  shows "\<exists>w. r = Some w \<and> w_userId w = u
           \<and> workouts (store wl') = workouts (store wl) @ [w]
           \<and> exercises (store wl') = exercises (store wl)
           \<and> workoutExercises (store wl') = workoutExercises (store wl)
           \<and> sets (store wl') = sets (store wl)"
  using assms
  by (auto simp: createWorkoutAction_def createWorkoutSchema_parse_def createWorkout_def
      insert_workouts_def Let_def
      split: if_splits sum.splits option.splits prod.splits)

lemma createWorkoutAction_failure_no_effect:
  assumes "createWorkoutAction ev input wl = (r, wl')" and "\<forall>x. r \<noteq> Inr (Success x)"
  shows "wl' = wl"
  using assms
  by (auto simp: createWorkoutAction_def createWorkoutSchema_parse_def
      split: if_splits sum.splits option.splits prod.splits)

lemma updateWorkoutAction_failure_no_effect:
  assumes "updateWorkoutAction ev data wl = (Failure m, wl')"
  shows "wl' = wl"
  using assms
  by (auto simp: updateWorkoutAction_def split: sum.splits prod.splits)

lemma updateWorkoutAction_isolation:
  assumes "pk_workouts (store wl)" and "auth ev = Some u" and "u \<noteq> []"
    and "updateWorkoutAction ev data wl = (Success r, wl')"
  shows "(\<exists>w. r = Some w \<and> w_userId w = u \<and> w_id w = uwi_workoutId data)
       \<and> filter (\<lambda>w. w_userId w \<noteq> u) (workouts (store wl'))
           = filter (\<lambda>w. w_userId w \<noteq> u) (workouts (store wl))"
proof -
  from assms(4) obtain d' where
    u: "updateWorkout_auth ev (uwi_workoutId data) (updateWorkoutAction_data ev data) (store wl)
        = Inr (r, d')" and s: "store wl' = d'"
    by (auto simp: updateWorkoutAction_def split: sum.splits prod.splits)
  from updateWorkout_auth_isolation [OF assms(1,2,3) u] s show ?thesis by simp
qed

lemma create_ok_value:
  "createWorkoutAction env0 inputOK world0
     = (Inr (Success (Some pullDay)),
        \<lparr> store = db0\<lparr> workouts := [legDay, pushDay, pullDay], workouts_id_seq := 4 \<rparr>,
          revalidated = [Dashboard] \<rparr>)"
  by (simp add: action_defs example_defs Let_def)

lemma rename1_value:
  "updateWorkoutAction env0 rename1 world0
     = (Success (Some (legDay\<lparr> w_name := Some ''Legs'', w_startedAt := 1736499600000,
                               w_updatedAt := 2000 \<rparr>)),
        \<lparr> store = db0\<lparr> workouts :=
                    [legDay\<lparr> w_name := Some ''Legs'', w_startedAt := 1736499600000,
                             w_updatedAt := 2000 \<rparr>, pushDay] \<rparr>,
          revalidated = [Dashboard, DashboardWorkout 1] \<rparr>)"
  by (simp add: action_defs example_defs Let_def)

section \<open>The data helpers keep the database well formed\<close>

text \<open>
  The primary key of \<open>workouts\<close> and the lead of its sequence are kept by create,
  update and delete.
\<close>

lemma createWorkout_keeps_integrity:
  assumes "pk_workouts d" and "seq_ahead d" and "createWorkout ev data d = Inr (r, d')"
  shows "pk_workouts d' \<and> seq_ahead d'"
proof -
  from assms(3) obtain w where
    d': "d' = d\<lparr> workouts := workouts d @ [w], workouts_id_seq := workouts_id_seq d + 1 \<rparr>"
    and w: "w_id w = workouts_id_seq d"
    by (auto simp: createWorkout_def insert_workouts_def Let_def
        split: sum.splits option.splits)
  have "\<forall>x\<in>set (workouts d). w_id x < workouts_id_seq d"
    using assms(2) by (simp add: seq_ahead_def list_all_iff)
  then show ?thesis
    using assms(1) d' w by (auto simp: pk_workouts_def seq_ahead_def list_all_iff)
qed

lemma id_applySet_if: "w_id \<circ> (\<lambda>w. if p w then applySet s w else w) = w_id"
  by (auto simp: fun_eq_iff applySet_id)

lemma updateWorkout_keeps_integrity:
  assumes "pk_workouts d" and "seq_ahead d" and "updateWorkout ev i u data d = Inr (r, d')"
  shows "pk_workouts d' \<and> seq_ahead d'"
proof -
  from assms(3) obtain s where
    d': "d' = d\<lparr> workouts := map (\<lambda>w. if w_id w = i \<and> w_userId w = u then applySet s w else w)
                               (workouts d) \<rparr>"
    by (auto simp: updateWorkout_def update_workouts_def
        split: sum.splits option.splits)
  have "list_all (\<lambda>w. w_id w < workouts_id_seq d)
          (map (\<lambda>w. if w_id w = i \<and> w_userId w = u then applySet s w else w) (workouts d))"
    using assms(2) by (auto simp: seq_ahead_def list_all_iff applySet_id)
  then show ?thesis
    using assms(1) d' by (simp add: pk_workouts_def seq_ahead_def id_applySet_if)
qed

lemma deleteWorkout_keeps_integrity:
  assumes "pk_workouts d" and "seq_ahead d" and "deleteWorkout ev i u d = Inr (r, d')"
  shows "pk_workouts d' \<and> seq_ahead d'"
proof -
  from assms(3) have
    w: "workouts d' = filter (\<lambda>w. \<not> (w_id w = i \<and> w_userId w = u)) (workouts d)"
    and q: "workouts_id_seq d' = workouts_id_seq d"
    by (auto simp: deleteWorkout_def delete_workouts_def Let_def split: option.splits)
  show ?thesis
    using assms(1,2) unfolding pk_workouts_def seq_ahead_def w q
    by (simp add: distinct_map_filter list_all_iff)
qed

section \<open>Whose identity an action acts under\<close>

text \<open>
  C2, as the code has it. With no resolved caller (\<open>auth()\<close> gives no \<open>userId\<close>, or an
  empty one) neither action has an effect: \<open>updateWorkoutAction\<close> answers
  \<open>Unauthorized\<close>; \<open>createWorkoutAction\<close> answers \<open>Unauthorized\<close> when the input passes
  its schema, and otherwise raises the schema's \<open>ZodError\<close>, since it validates first.
  With a resolved caller \<open>u\<close>, a workout that \<open>createWorkoutAction\<close> creates is owned by
  \<open>u\<close> and is the one row added; a workout that \<open>updateWorkoutAction\<close> updates has the given
  id and is owned by \<open>u\<close>, and the rows of every other user are as before. Neither input
  has a field for a user id.
\<close>

theorem actions_use_resolved_identity:
  "((auth ev = None \<or> auth ev = Some []) \<longrightarrow>
       snd (createWorkoutAction ev input wl) = wl
     \<and> (createWorkoutSchema_issues ev input = [] \<longrightarrow>
          createWorkoutAction ev input wl = (Inr (Failure ''Unauthorized''), wl))
     \<and> (createWorkoutSchema_issues ev input \<noteq> [] \<longrightarrow>
          createWorkoutAction ev input wl
            = (Inl (ZodError (createWorkoutSchema_issues ev input)), wl))
     \<and> updateWorkoutAction ev data wl = (Failure ''Unauthorized'', wl))
   \<and> (auth ev = Some u \<and> u \<noteq> [] \<longrightarrow>
        (\<forall>r wl'. createWorkoutAction ev input wl = (Inr (Success r), wl') \<longrightarrow>
           (\<exists>w. r = Some w \<and> w_userId w = u
                \<and> workouts (store wl') = workouts (store wl) @ [w]))
      \<and> (pk_workouts (store wl) \<longrightarrow>
           (\<forall>r wl'. updateWorkoutAction ev data wl = (Success r, wl') \<longrightarrow>
              (\<exists>w. r = Some w \<and> w_userId w = u \<and> w_id w = uwi_workoutId data)
            \<and> filter (\<lambda>w. w_userId w \<noteq> u) (workouts (store wl'))
                = filter (\<lambda>w. w_userId w \<noteq> u) (workouts (store wl)))))"
proof (intro conjI impI allI)
  assume a: "auth ev = None \<or> auth ev = Some []"
  show "snd (createWorkoutAction ev input wl) = wl"
  proof (cases "createWorkoutSchema_issues ev input = []")
    case True
    then show ?thesis by (simp add: createWorkoutAction_unauthorized [OF _ a])
  next
    case False
    then show ?thesis by (simp add: createWorkoutAction_invalid)
  qed
  show "updateWorkoutAction ev data wl = (Failure ''Unauthorized'', wl)"
    by (rule updateWorkoutAction_unauthorized [OF a])
  {
    assume "createWorkoutSchema_issues ev input = []"
    then show "createWorkoutAction ev input wl = (Inr (Failure ''Unauthorized''), wl)"
      by (rule createWorkoutAction_unauthorized [OF _ a])
  }
  {
    assume "createWorkoutSchema_issues ev input \<noteq> []"
    then show "createWorkoutAction ev input wl
            = (Inl (ZodError (createWorkoutSchema_issues ev input)), wl)"
      by (rule createWorkoutAction_invalid)
  }
next
  fix r wl'
  assume b: "auth ev = Some u \<and> u \<noteq> []"
    and c: "createWorkoutAction ev input wl = (Inr (Success r), wl')"
  from createWorkoutAction_success_owner [OF c] b
  show "\<exists>w. r = Some w \<and> w_userId w = u \<and> workouts (store wl') = workouts (store wl) @ [w]"
    by blast
next
  fix r wl'
  assume b: "auth ev = Some u \<and> u \<noteq> []" and pk: "pk_workouts (store wl)"
    and c: "updateWorkoutAction ev data wl = (Success r, wl')"
  from b have b1: "auth ev = Some u" and b2: "u \<noteq> []" by simp_all
  note iso = updateWorkoutAction_isolation [OF pk b1 b2 c]
  show "\<exists>w. r = Some w \<and> w_userId w = u \<and> w_id w = uwi_workoutId data"
    using iso by blast
  show "filter (\<lambda>w. w_userId w \<noteq> u) (workouts (store wl'))
                = filter (\<lambda>w. w_userId w \<noteq> u) (workouts (store wl))"
    using iso by blast
qed

theorem actions_use_resolved_identity_witness:
  "createWorkoutAction envAnon inputOK world0 = (Inr (Failure ''Unauthorized''), world0)
   \<and> updateWorkoutAction envAnon rename1 world0 = (Failure ''Unauthorized'', world0)
   \<and> w_userId pullDay = ''u1''
   \<and> [w \<leftarrow> workouts (store (snd (updateWorkoutAction env0 rename1 world0))). w_userId w \<noteq> ''u1'']
       = [pushDay]"
proof -
  have anon: "auth envAnon = None \<or> auth envAnon = Some []" by (simp add: example_defs)
  have ok: "createWorkoutSchema_issues envAnon inputOK = []"
    by (simp add: createWorkoutSchema_issues_def example_defs)
  have u1: "auth env0 = Some ''u1'' \<and> ''u1'' \<noteq> []" by (simp add: example_defs)
  have pk: "pk_workouts (store world0)" by (simp add: pk_workouts_def example_defs)
  note t0 = actions_use_resolved_identity [of envAnon inputOK world0 rename1 "''u1''"]
  note t1 = actions_use_resolved_identity [of env0 inputOK world0 rename1 "''u1''"]
  from t0 anon ok have a: "createWorkoutAction envAnon inputOK world0 = (Inr (Failure ''Unauthorized''), world0)"
    and b: "updateWorkoutAction envAnon rename1 world0 = (Failure ''Unauthorized'', world0)"
    by blast+
  from t1 u1 create_ok_value have "\<exists>w. Some pullDay = Some w \<and> w_userId w = ''u1''"
    by blast
  then have c: "w_userId pullDay = ''u1''" by simp
  from t1 u1 pk rename1_value
  have "filter (\<lambda>w. w_userId w \<noteq> ''u1'')
          (workouts (store \<lparr> store = db0\<lparr> workouts :=
                    [legDay\<lparr> w_name := Some ''Legs'', w_startedAt := 1736499600000,
                             w_updatedAt := 2000 \<rparr>, pushDay] \<rparr>,
          revalidated = [Dashboard, DashboardWorkout 1] \<rparr>))
        = filter (\<lambda>w. w_userId w \<noteq> ''u1'') (workouts (store world0))"
    by blast
  then have d: "[w \<leftarrow> workouts (store (snd (updateWorkoutAction env0 rename1 world0))). w_userId w \<noteq> ''u1'']
       = [pushDay]"
    by (simp add: rename1_value) (simp add: example_defs)
  from a b c d show ?thesis by blast
qed

text \<open>
  C2 as stated fails: with no caller and a start that does not parse,
  \<open>createWorkoutAction\<close> raises the validation fault instead of answering \<open>Unauthorized\<close>.
\<close>

theorem anonymous_invalid_create_counterexample:
  "createWorkoutAction envAnon \<lparr> cwi_name = Some ''Leg Day'', cwi_startedAt = ''not a date'' \<rparr> world0
     = (Inl (ZodError [(''startedAt'', ''Invalid date format'')]), world0)
   \<and> createWorkoutAction envAnon
         \<lparr> cwi_name = Some ''Leg Day'', cwi_startedAt = ''not a date'' \<rparr> world0
     \<noteq> (Inr (Failure ''Unauthorized''), world0)"
  by (simp add: createWorkoutAction_def createWorkoutSchema_parse_def
      createWorkoutSchema_issues_def envAnon_def env0_def)

section \<open>Input that fails the schema\<close>

lemma issues_nonempty_iff:
  "createWorkoutSchema_issues ev input \<noteq> [] \<longleftrightarrow>
     cwi_name input = Some [] \<or> (\<exists>n. cwi_name input = Some n \<and> 255 < length n)
     \<or> dateParse ev (cwi_startedAt input) = None"
  by (auto simp: createWorkoutSchema_issues_def split: option.splits)

lemma issues_fields:
  "(cwi_name input = Some [] \<longrightarrow>
      (''name'', ''Workout name is required'') \<in> set (createWorkoutSchema_issues ev input))
   \<and> ((\<exists>n. cwi_name input = Some n \<and> 255 < length n) \<longrightarrow>
      (''name'', ''Name is too long'') \<in> set (createWorkoutSchema_issues ev input))
   \<and> (dateParse ev (cwi_startedAt input) = None \<longrightarrow>
      (''startedAt'', ''Invalid date format'') \<in> set (createWorkoutSchema_issues ev input))"
  by (auto simp: createWorkoutSchema_issues_def split: option.splits)

lemma createWorkoutAction_valid_returns:
  assumes "createWorkoutSchema_issues ev input = []"
  shows "\<exists>r. fst (createWorkoutAction ev input wl) = Inr r"
  using assms
  by (auto simp: createWorkoutAction_def createWorkoutSchema_parse_def
      split: option.splits sum.splits prod.splits)

text \<open>
  C3, as the code has it. An input of \<open>createWorkoutAction\<close> fails its schema exactly when
  the name is empty or longer than 255 characters or the start does not parse. For such
  an input the action returns nothing: the schema's \<open>ZodError\<close> leaves it, carrying one
  issue per failed rule with the field and the message, and nothing is stored or
  revalidated. For every other input the action returns a result and raises nothing.
\<close>

theorem createWorkoutAction_validation_fault:
  "((cwi_name input = Some [] \<or> (\<exists>n. cwi_name input = Some n \<and> 255 < length n)
      \<or> dateParse ev (cwi_startedAt input) = None) \<longrightarrow>
        createWorkoutSchema_issues ev input \<noteq> []
      \<and> createWorkoutAction ev input wl
          = (Inl (ZodError (createWorkoutSchema_issues ev input)), wl)
      \<and> (cwi_name input = Some [] \<longrightarrow>
           (''name'', ''Workout name is required'') \<in> set (createWorkoutSchema_issues ev input))
      \<and> ((\<exists>n. cwi_name input = Some n \<and> 255 < length n) \<longrightarrow>
           (''name'', ''Name is too long'') \<in> set (createWorkoutSchema_issues ev input))
      \<and> (dateParse ev (cwi_startedAt input) = None \<longrightarrow>
           (''startedAt'', ''Invalid date format'') \<in> set (createWorkoutSchema_issues ev input)))
   \<and> (\<not> (cwi_name input = Some [] \<or> (\<exists>n. cwi_name input = Some n \<and> 255 < length n)
           \<or> dateParse ev (cwi_startedAt input) = None) \<longrightarrow>
        (\<exists>r. fst (createWorkoutAction ev input wl) = Inr r))"
proof (rule conjI)
  show "(cwi_name input = Some [] \<or> (\<exists>n. cwi_name input = Some n \<and> 255 < length n)
      \<or> dateParse ev (cwi_startedAt input) = None) \<longrightarrow>
        createWorkoutSchema_issues ev input \<noteq> []
      \<and> createWorkoutAction ev input wl
          = (Inl (ZodError (createWorkoutSchema_issues ev input)), wl)
      \<and> (cwi_name input = Some [] \<longrightarrow>
           (''name'', ''Workout name is required'') \<in> set (createWorkoutSchema_issues ev input))
      \<and> ((\<exists>n. cwi_name input = Some n \<and> 255 < length n) \<longrightarrow>
           (''name'', ''Name is too long'') \<in> set (createWorkoutSchema_issues ev input))
      \<and> (dateParse ev (cwi_startedAt input) = None \<longrightarrow>
           (''startedAt'', ''Invalid date format'') \<in> set (createWorkoutSchema_issues ev input))"
  proof (rule impI)
    assume "cwi_name input = Some [] \<or> (\<exists>n. cwi_name input = Some n \<and> 255 < length n)
      \<or> dateParse ev (cwi_startedAt input) = None"
    then have ne: "createWorkoutSchema_issues ev input \<noteq> []"
      by (simp only: issues_nonempty_iff)
    from ne createWorkoutAction_invalid [OF ne] issues_fields [of input ev]
    show "createWorkoutSchema_issues ev input \<noteq> []
      \<and> createWorkoutAction ev input wl
          = (Inl (ZodError (createWorkoutSchema_issues ev input)), wl)
      \<and> (cwi_name input = Some [] \<longrightarrow>
           (''name'', ''Workout name is required'') \<in> set (createWorkoutSchema_issues ev input))
      \<and> ((\<exists>n. cwi_name input = Some n \<and> 255 < length n) \<longrightarrow>
           (''name'', ''Name is too long'') \<in> set (createWorkoutSchema_issues ev input))
      \<and> (dateParse ev (cwi_startedAt input) = None \<longrightarrow>
           (''startedAt'', ''Invalid date format'') \<in> set (createWorkoutSchema_issues ev input))"
      by blast
  qed
next
  show "\<not> (cwi_name input = Some [] \<or> (\<exists>n. cwi_name input = Some n \<and> 255 < length n)
           \<or> dateParse ev (cwi_startedAt input) = None) \<longrightarrow>
        (\<exists>r. fst (createWorkoutAction ev input wl) = Inr r)"
  proof (rule impI)
    assume good: "\<not> (cwi_name input = Some [] \<or> (\<exists>n. cwi_name input = Some n \<and> 255 < length n)
           \<or> dateParse ev (cwi_startedAt input) = None)"
    have "createWorkoutSchema_issues ev input = []"
    proof (rule ccontr)
      assume "createWorkoutSchema_issues ev input \<noteq> []"
      then have "cwi_name input = Some [] \<or> (\<exists>n. cwi_name input = Some n \<and> 255 < length n)
           \<or> dateParse ev (cwi_startedAt input) = None"
        by (simp only: issues_nonempty_iff)
      with good show False by (rule notE)
    qed
    then show "\<exists>r. fst (createWorkoutAction ev input wl) = Inr r"
      by (rule createWorkoutAction_valid_returns)
  qed
qed

theorem createWorkoutAction_validation_fault_witness:
  "createWorkoutAction env0 \<lparr> cwi_name = Some [], cwi_startedAt = ''tomorrow'' \<rparr> world0
     = (Inl (ZodError [(''name'', ''Workout name is required''),
                       (''startedAt'', ''Invalid date format'')]), world0)
   \<and> (\<exists>r. fst (createWorkoutAction env0 inputOK world0) = Inr r)"
proof -
  have h: "cwi_name \<lparr> cwi_name = Some [], cwi_startedAt = ''tomorrow'' \<rparr> = Some []
           \<or> (\<exists>n. cwi_name \<lparr> cwi_name = Some [], cwi_startedAt = ''tomorrow'' \<rparr> = Some n
                  \<and> 255 < length n)
           \<or> dateParse env0 (cwi_startedAt \<lparr> cwi_name = Some [], cwi_startedAt = ''tomorrow'' \<rparr>)
               = None"
    by simp
  have v: "createWorkoutSchema_issues env0 \<lparr> cwi_name = Some [], cwi_startedAt = ''tomorrow'' \<rparr>
           = [(''name'', ''Workout name is required''), (''startedAt'', ''Invalid date format'')]"
    by (simp add: createWorkoutSchema_issues_def example_defs)
  have g: "\<not> (cwi_name inputOK = Some [] \<or> (\<exists>n. cwi_name inputOK = Some n \<and> 255 < length n)
           \<or> dateParse env0 (cwi_startedAt inputOK) = None)"
    by (simp add: example_defs)
  from createWorkoutAction_validation_fault [of "\<lparr> cwi_name = Some [], cwi_startedAt = ''tomorrow'' \<rparr>"
      env0 world0] h
  have a: "createWorkoutAction env0 \<lparr> cwi_name = Some [], cwi_startedAt = ''tomorrow'' \<rparr> world0
     = (Inl (ZodError [(''name'', ''Workout name is required''),
                       (''startedAt'', ''Invalid date format'')]), world0)"
    unfolding v by blast
  from createWorkoutAction_validation_fault [of inputOK env0 world0] g
  have b: "\<exists>r. fst (createWorkoutAction env0 inputOK world0) = Inr r" by blast
  from a b show ?thesis by blast
qed

text \<open>
  C3 as stated fails: an empty name makes \<open>createWorkoutAction\<close> raise, not return.
\<close>

theorem empty_name_create_counterexample:
  "createWorkoutAction env0 \<lparr> cwi_name = Some [], cwi_startedAt = ''2025-01-10T08:00:00Z'' \<rparr>
       world0
     = (Inl (ZodError [(''name'', ''Workout name is required'')]), world0)"
  by (simp add: action_defs example_defs)

section \<open>Storage faults seen by the caller\<close>

text \<open>
  What each action returns when a storage round trip fails (for a resolved caller, and
  for \<open>createWorkoutAction\<close> an input that passes the schema): nothing is stored or
  revalidated; \<open>createWorkoutAction\<close> answers with the fixed text
  \<open>Failed to create workout\<close>; \<open>updateWorkoutAction\<close> answers with the message of the
  thrown \<open>Error\<close> itself, and with \<open>Failed to update workout\<close> only when the thrown value
  is not an \<open>Error\<close>, for the verifying read as for the write.
\<close>

lemma storage_fault_messages:
  "(auth ev = Some u \<and> u \<noteq> [] \<and> createWorkoutSchema_issues ev input = []
      \<and> fault ev 0 = Some e \<longrightarrow>
        createWorkoutAction ev input wl = (Inr (Failure ''Failed to create workout''), wl))
   \<and> (auth ev = Some u \<and> u \<noteq> [] \<and> fault ev 0 = Some e \<longrightarrow>
        updateWorkoutAction ev data wl
          = (Failure (case e of JsError m \<Rightarrow> m | NonError \<Rightarrow> ''Failed to update workout''), wl))
   \<and> (auth ev = Some u \<and> u \<noteq> [] \<and> fault ev 0 = None \<and> fault ev 1 = Some e
      \<and> W \<in> set (workouts (store wl)) \<and> w_id W = uwi_workoutId data \<and> w_userId W = u
      \<and> updateData_set ev (updateWorkoutAction_data ev data) = Inr s \<longrightarrow>
        updateWorkoutAction ev data wl
          = (Failure (case e of JsError m \<Rightarrow> m | NonError \<Rightarrow> ''Failed to update workout''), wl))"
proof -
  have m: "updateWorkoutAction_error e
        = (case e of JsError m \<Rightarrow> m | NonError \<Rightarrow> ''Failed to update workout'')"
    by (cases e) simp_all
  show ?thesis
  proof (intro conjI impI)
    assume "auth ev = Some u \<and> u \<noteq> [] \<and> createWorkoutSchema_issues ev input = []
      \<and> fault ev 0 = Some e"
    then show "createWorkoutAction ev input wl = (Inr (Failure ''Failed to create workout''), wl)"
      using createWorkoutAction_fault [of ev input u e wl] by blast
  next
    assume "auth ev = Some u \<and> u \<noteq> [] \<and> fault ev 0 = Some e"
    then show "updateWorkoutAction ev data wl
          = (Failure (case e of JsError m \<Rightarrow> m | NonError \<Rightarrow> ''Failed to update workout''), wl)"
      using updateWorkoutAction_read_fault [of ev u e data wl] m by simp
  next
    assume "auth ev = Some u \<and> u \<noteq> [] \<and> fault ev 0 = None \<and> fault ev 1 = Some e
      \<and> W \<in> set (workouts (store wl)) \<and> w_id W = uwi_workoutId data \<and> w_userId W = u
      \<and> updateData_set ev (updateWorkoutAction_data ev data) = Inr s"
    then show "updateWorkoutAction ev data wl
          = (Failure (case e of JsError m \<Rightarrow> m | NonError \<Rightarrow> ''Failed to update workout''), wl)"
      using updateWorkoutAction_write_fault [of ev u W wl data s e] m by simp
  qed
qed

text \<open>
  C4. A storage failure during a mutation is to reach the caller as a generic message,
  never as the text of the underlying error. \<open>createWorkoutAction\<close> keeps to that;
  \<open>updateWorkoutAction\<close> does not: with the database connection refused, the error text it
  returns to the caller is the message of the storage error.
\<close>

theorem updateWorkoutAction_leaks_storage_message:
  "fault envDown 0 = Some (JsError ''connect ECONNREFUSED 127.0.0.1:5432'')
   \<and> updateWorkoutAction envDown
         \<lparr> uwi_workoutId = 1, uwi_name = Some ''Legs'', uwi_startedAt = None,
           uwi_completedAt = Absent \<rparr> world0
       = (Failure ''connect ECONNREFUSED 127.0.0.1:5432'', world0)
   \<and> createWorkoutAction envDown inputOK world0
       = (Inr (Failure ''Failed to create workout''), world0)"
  by (simp add: action_defs example_defs)

section \<open>A workout created without a name\<close>

text \<open>The title of a card is the name, and \<open>Untitled Workout\<close> for a NULL or empty name.\<close>

lemma cardTitle_cases:
  "cardTitle w = (if w_name w = None \<or> w_name w = Some [] then ''Untitled Workout''
                  else the (w_name w))"
  by (simp add: cardTitle_def split: option.splits)

text \<open>
  For a resolved caller, a start that parses and no storage fault: a workout created
  with an absent name is stored with a NULL name; an empty name is refused by the
  schema and nothing is stored. The form of the new-workout page sends an empty name
  as an absent one.
\<close>

lemma createWorkoutAction_blank_name:
  assumes "auth ev = Some u" and "u \<noteq> []" and "fault ev 0 = None"
    and "dateParse ev (cwi_startedAt input) = Some t"
  shows "(cwi_name input = None \<longrightarrow>
           (\<exists>w wl'. createWorkoutAction ev input wl = (Inr (Success (Some w)), wl')
                  \<and> workouts (store wl') = workouts (store wl) @ [w]
                  \<and> w_name w = None \<and> cardTitle w = ''Untitled Workout''))
       \<and> (cwi_name input = Some [] \<longrightarrow>
           createWorkoutAction ev input wl
             = (Inl (ZodError [(''name'', ''Workout name is required'')]), wl))
       \<and> or_undefined [] = None"
proof (intro conjI impI)
  assume n: "cwi_name input = None"
  then have ok: "createWorkoutSchema_issues ev input = []"
    using assms(4) by (simp add: createWorkoutSchema_issues_def)
  from createWorkoutAction_success [OF ok assms(1,2,3), of wl] n
  show "\<exists>w wl'. createWorkoutAction ev input wl = (Inr (Success (Some w)), wl')
                  \<and> workouts (store wl') = workouts (store wl) @ [w]
                  \<and> w_name w = None \<and> cardTitle w = ''Untitled Workout''"
    by (auto simp: cardTitle_def)
next
  assume e: "cwi_name input = Some []"
  then have v: "createWorkoutSchema_issues ev input = [(''name'', ''Workout name is required'')]"
    using assms(4) by (simp add: createWorkoutSchema_issues_def)
  then have "createWorkoutSchema_issues ev input \<noteq> []" by simp
  from createWorkoutAction_invalid [OF this, of wl] v
  show "createWorkoutAction ev input wl
             = (Inl (ZodError [(''name'', ''Workout name is required'')]), wl)" by simp
next
  show "or_undefined [] = None" by (simp add: or_undefined_def)
qed

text \<open>
  C9. A workout created with a blank name is to get an auto-generated label as its
  stored name, as the hint under the name field of the form says (\<open>Leave blank to
  auto-generate a name\<close>). The code generates none: the workout that the form creates
  from a blank name field is stored with a NULL name, which the list can only show as
  \<open>Untitled Workout\<close>; and an empty name given to the action itself is refused.
\<close>

theorem blank_name_stored_null:
  "or_undefined [] = None
   \<and> createWorkoutAction env0
         \<lparr> cwi_name = or_undefined [], cwi_startedAt = ''2025-01-10T09:00:00Z'' \<rparr> world0
     = (Inr (Success (Some (pullDay\<lparr> w_name := None \<rparr>))),
        \<lparr> store = db0\<lparr> workouts := [legDay, pushDay, pullDay\<lparr> w_name := None \<rparr>],
                       workouts_id_seq := 4 \<rparr>,
          revalidated = [Dashboard] \<rparr>)
   \<and> w_name (pullDay\<lparr> w_name := None \<rparr>) = None
   \<and> cardTitle (pullDay\<lparr> w_name := None \<rparr>) = ''Untitled Workout''
   \<and> createWorkoutAction env0
         \<lparr> cwi_name = Some [], cwi_startedAt = ''2025-01-10T09:00:00Z'' \<rparr> world0
     = (Inl (ZodError [(''name'', ''Workout name is required'')]), world0)"
  by (simp add: action_defs example_defs or_undefined_def cardTitle_def Let_def)


end
